theory Spec2Isabelle
  imports Main
begin

section \<open>Identity-provider resources of the Okta provider (okta/idp.go, okta/resource_social_idp.go)\<close>

subsection \<open>Go values: errors, panics, pointers\<close>

text \<open>
  A Go \<open>error\<close> is its message; the nil error is \<open>None\<close>. A run-time panic (a nil
  pointer dereference, a failed type assertion) is not an error value: it unwinds the
  handler. A Go computation is therefore an \<open>outcome\<close>: it panics or returns a value.
  A pointer \<open>*T\<close> is \<open>T option\<close>, nil being \<open>None\<close>; \<open>deref\<close> is the field access
  through it.
\<close>

type_synonym error = string

datatype 'a outcome = Panic | Return 'a

fun obind :: "'a outcome \<Rightarrow> ('a \<Rightarrow> 'b outcome) \<Rightarrow> 'b outcome" where
  "obind Panic f = Panic"
| "obind (Return x) f = f x"

fun deref :: "'a option \<Rightarrow> 'a outcome" where
  "deref None = Panic"
| "deref (Some x) = Return x"

subsection \<open>The remote domain objects\<close>

text \<open>
  The struct declarations are not part of the two source files. Their fields and the
  pointer-ness of each field are read off the composite literals of \<open>buildSocialIdp\<close>,
  \<open>NewIdpProvisioning\<close>, \<open>NewAccountLink\<close>, \<open>NewSignature\<close> and the selectors of
  \<open>resourceSocialIdpRead\<close>. Field names shared by several structs (\<open>Action\<close>,
  \<open>Type\<close>, \<open>Groups\<close>) are told apart by the struct's name. \<open>MaxClockSkew\<close> is an
  \<open>int64\<close> obtained by \<open>int64(x)\<close> from an \<open>int\<close>, a conversion that keeps the value, so
  both are \<open>int\<close> here. \<open>ProfileMaster\<close>, which no literal sets, has the type of its
  schema field \<open>profile_master\<close>.
\<close>

record IDPAction =
  Action :: string

record IDPConditions =
  Deprovisioned :: "IDPAction option"
  Suspended :: "IDPAction option"

record IDPProvisioning =
  Provisioning_Action :: string
  Conditions :: "IDPConditions option"
  Provisioning_Groups :: "IDPAction option"
  ProfileMaster :: bool

record Included =
  Include :: "string list"

record Filter =
  Groups :: "Included option"

record AccountLink =
  AccountLink_Action :: string
  Filter :: "Filter option"

record Signature =
  Algorithm :: string
  Scope :: string

record IDPSignature =
  Signature :: "Signature option"

record Algorithms =
  Request :: "IDPSignature option"
  Response :: "IDPSignature option"

record UsernameTemplate =
  Template :: string

record OIDCSubject =
  MatchType :: string
  UserNameTemplate :: "UsernameTemplate option"

record OIDCPolicy =
  AccountLink :: "AccountLink option"
  MaxClockSkew :: int
  Provisioning :: "IDPProvisioning option"
  Subject :: "OIDCSubject option"

record OIDCClient =
  ClientID :: string
  ClientSecret :: string

record OIDCCredentials =
  Client :: "OIDCClient option"

record OIDCProtocol =
  Scopes :: "string list"
  Protocol_Type :: string
  Credentials :: "OIDCCredentials option"

record OIDCIdentityProvider =
  ID :: string
  IssuerMode :: string
  Name :: string
  Policy :: "OIDCPolicy option"
  Protocol :: "OIDCProtocol option"
  Status :: string
  Type :: string

text \<open>The value \<open>&OIDCIdentityProvider{}\<close> points to: every field zero, every pointer nil.\<close>

definition zero_OIDCIdentityProvider :: OIDCIdentityProvider where
  "zero_OIDCIdentityProvider =
     \<lparr>ID = [], IssuerMode = [], Name = [], Policy = None, Protocol = None,
      Status = [], Type = []\<rparr>"

subsection \<open>The host's resource data\<close>

text \<open>
  \<open>d.Get(key)\<close> yields an \<open>interface{}\<close>: nil for a key the schema does not have, else a
  value of the schema type of the key (the zero value when the configuration leaves it
  out). \<open>VSet\<close> is a \<open>*schema.Set\<close> of strings, carried as the list its \<open>List()\<close>
  yields. \<open>VAction\<close>, \<open>VFilter\<close> and \<open>VList\<close> are values that only \<open>d.Set\<close> receives.
  The host is outside the source. \<open>rd_writes\<close> is the log of the \<open>d.Set\<close> calls that
  returned, in the order they were made, whether or not the host took the value (the
  source drops the error \<open>d.Set\<close> returns).
\<close>

datatype "value" =
    VString string
  | VInt int
  | VBool bool
  | VSet "string list"
  | VAction "IDPAction option"
  | VFilter "Filter option"
  | VList "string list"

record ResourceData =
  rd_id :: string
  rd_fields :: "string \<rightharpoonup> value"
  rd_partial :: bool
  rd_writes :: "(string \<times> value) list"

definition Get :: "ResourceData \<Rightarrow> string \<Rightarrow> value option" where
  "Get d key = rd_fields d key"

definition Set_field :: "string \<Rightarrow> value \<Rightarrow> ResourceData \<Rightarrow> ResourceData" where
  "Set_field key v d = d\<lparr>rd_writes := rd_writes d @ [(key, v)]\<rparr>"

definition SetId :: "string \<Rightarrow> ResourceData \<Rightarrow> ResourceData" where
  "SetId v d = d\<lparr>rd_id := v\<rparr>"

definition Partial :: "bool \<Rightarrow> ResourceData \<Rightarrow> ResourceData" where
  "Partial on d = d\<lparr>rd_partial := on\<rparr>"

text \<open>The type assertions \<open>x.(string)\<close> and \<open>x.(int)\<close>: a panic on any other value.\<close>

fun as_string :: "value option \<Rightarrow> string outcome" where
  "as_string (Some (VString s)) = Return s"
| "as_string _ = Panic"

fun as_int :: "value option \<Rightarrow> int outcome" where
  "as_int (Some (VInt i)) = Return i"
| "as_int _ = Panic"

text \<open>
  Modelled from the spec: \<open>convertInterfaceToStringSet\<close> is called by the builders and is
  not in the source files. The builders "read flat configuration fields": it turns the
  set-typed field into the slice of its strings, and asserts the set type on the way.
\<close>

fun convertInterfaceToStringSet :: "value option \<Rightarrow> string list outcome" where
  "convertInterfaceToStringSet (Some (VSet xs)) = Return xs"
| "convertInterfaceToStringSet _ = Panic"

subsection \<open>Schema descriptors\<close>

datatype schema_type = TypeString | TypeInt | TypeBool | TypeSet

definition baseIdpSchema :: "(string \<times> schema_type) list" where
  "baseIdpSchema =
     [(''name'', TypeString),
      (''status'', TypeString),
      (''account_link_action'', TypeString),
      (''account_link_group_include'', TypeSet),
      (''provisioning_action'', TypeString),
      (''deprovisioned_action'', TypeString),
      (''suspended_action'', TypeString),
      (''groups_action'', TypeString),
      (''username_template'', TypeString),
      (''subject_match_type'', TypeString),
      (''profile_master'', TypeBool),
      (''request_signature_algorithm'', TypeString),
      (''request_signature_scope'', TypeString),
      (''response_signature_algorithm'', TypeString),
      (''response_signature_scope'', TypeString)]"

definition socialIdpSchema :: "(string \<times> schema_type) list" where
  "socialIdpSchema =
     [(''authorization_url'', TypeString),
      (''authorization_binding'', TypeString),
      (''token_url'', TypeString),
      (''token_binding'', TypeString),
      (''type'', TypeString),
      (''scopes'', TypeSet),
      (''protocol_type'', TypeString),
      (''client_id'', TypeString),
      (''client_secret'', TypeString),
      (''max_clock_skew'', TypeInt)]"

text \<open>
  \<open>buildSchema\<close> is not in the source files; \<open>buildIdpSchema\<close> hands it the base schema
  and the resource's own, and the resource has the fields of both.
\<close>

definition buildIdpSchema :: "(string \<times> schema_type) list \<Rightarrow> (string \<times> schema_type) list" where
  "buildIdpSchema idpSchema = baseIdpSchema @ idpSchema"

fun has_type :: "schema_type \<Rightarrow> value option \<Rightarrow> bool" where
  "has_type TypeString (Some (VString s)) = True"
| "has_type TypeInt (Some (VInt i)) = True"
| "has_type TypeBool (Some (VBool b)) = True"
| "has_type TypeSet (Some (VSet xs)) = True"
| "has_type _ _ = False"

text \<open>
  What the host guarantees of the resource data it passes to a handler: every field of
  the schema holds a value of its type.
\<close>

definition conforms :: "(string \<times> schema_type) list \<Rightarrow> ResourceData \<Rightarrow> bool" where
  "conforms sch d = list_all (\<lambda>(key, ty). has_type ty (Get d key)) sch"

subsection \<open>Builders\<close>

definition NewIdpProvisioning :: "ResourceData \<Rightarrow> IDPProvisioning option outcome" where
  "NewIdpProvisioning d =
     obind (as_string (Get d ''provisioning_action'')) (\<lambda>action.
     obind (as_string (Get d ''deprovisioned_action'')) (\<lambda>deprovisioned.
     obind (as_string (Get d ''suspended_action'')) (\<lambda>suspended.
     obind (as_string (Get d ''groups_action'')) (\<lambda>groups.
     Return (Some
       \<lparr>Provisioning_Action = action,
        Conditions = Some
          \<lparr>Deprovisioned = Some \<lparr>Action = deprovisioned\<rparr>,
           Suspended = Some \<lparr>Action = suspended\<rparr>\<rparr>,
        Provisioning_Groups = Some \<lparr>Action = groups\<rparr>,
        ProfileMaster = False\<rparr>)))))"

definition NewAccountLink :: "ResourceData \<Rightarrow> AccountLink option outcome" where
  "NewAccountLink d =
     obind (convertInterfaceToStringSet (Get d ''account_link_group_include'')) (\<lambda>link.
     let filter = (if length link > 0 then Some \<lparr>Groups = Some \<lparr>Include = link\<rparr>\<rparr> else None)
     in obind (as_string (Get d ''account_link_action'')) (\<lambda>action.
        Return (Some \<lparr>AccountLink_Action = action, Filter = filter\<rparr>)))"

definition NewSignature :: "ResourceData \<Rightarrow> string \<Rightarrow> IDPSignature option outcome" where
  "NewSignature d key =
     (let scopeKey = key @ ''_signature_scope''
      in obind (as_string (Get d scopeKey)) (\<lambda>scope.
         if scope = [] then Return None
         else obind (as_string (Get d (key @ ''_signature_algorithm''))) (\<lambda>algorithm.
              Return (Some \<lparr>Signature = Some \<lparr>Algorithm = algorithm, Scope = scope\<rparr>\<rparr>))))"

definition NewAlgorithms :: "ResourceData \<Rightarrow> Algorithms option outcome" where
  "NewAlgorithms d =
     obind (NewSignature d ''request'') (\<lambda>request.
     obind (NewSignature d ''response'') (\<lambda>response.
     Return (Some \<lparr>Request = request, Response = response\<rparr>)))"

definition buildSocialIdp :: "ResourceData \<Rightarrow> OIDCIdentityProvider outcome" where
  "buildSocialIdp d =
     obind (as_string (Get d ''name'')) (\<lambda>name.
     obind (as_string (Get d ''type'')) (\<lambda>type.
     obind (NewAccountLink d) (\<lambda>accountLink.
     obind (as_int (Get d ''max_clock_skew'')) (\<lambda>maxClockSkew.
     obind (NewIdpProvisioning d) (\<lambda>provisioning.
     obind (as_string (Get d ''subject_match_type'')) (\<lambda>matchType.
     obind (as_string (Get d ''username_template'')) (\<lambda>template.
     obind (convertInterfaceToStringSet (Get d ''scopes'')) (\<lambda>scopes.
     obind (as_string (Get d ''protocol_type'')) (\<lambda>protocolType.
     obind (as_string (Get d ''client_id'')) (\<lambda>clientID.
     obind (as_string (Get d ''client_secret'')) (\<lambda>clientSecret.
     Return
       \<lparr>ID = [], IssuerMode = [],
        Name = name,
        Policy = Some
          \<lparr>AccountLink = accountLink,
           MaxClockSkew = maxClockSkew,
           Provisioning = provisioning,
           Subject = Some
             \<lparr>MatchType = matchType,
              UserNameTemplate = Some \<lparr>Template = template\<rparr>\<rparr>\<rparr>,
        Protocol = Some
          \<lparr>Scopes = scopes,
           Protocol_Type = protocolType,
           Credentials = Some
             \<lparr>Client = Some \<lparr>ClientID = clientID, ClientSecret = clientSecret\<rparr>\<rparr>\<rparr>,
        Status = [],
        Type = type\<rparr>)))))))))))"

subsection \<open>The SDK client\<close>

text \<open>
  The SDK and the service behind it are outside the source. A client is what the handlers
  can observe of them: the reply to each call, which may depend on every call made
  before (so the remote state may change under the calls). The list of calls made so far
  is threaded through the handlers; it is how a theorem counts calls. \<open>'i\<close> is the
  type behind the \<open>IdentityProvider\<close> interface.

  A reply is what the SDK hands back: the response (a pointer, nil when the call got no
  HTTP response), the error, and, for the calls that decode a body into the \<open>idp\<close> they
  are given, the object \<open>idp\<close> points to afterwards (\<open>None\<close>: left as it was).
\<close>

record Response =
  StatusCode :: int

datatype 'i api_call =
    CallGet string 'i
  | CallCreate 'i
  | CallUpdate string 'i
  | CallActivate string
  | CallDeactivate string
  | CallDelete string

record 'i reply =
  reply_decoded :: "'i option"
  reply_response :: "Response option"
  reply_err :: "error option"

type_synonym 'i trace = "'i api_call list"

type_synonym 'i client = "'i trace \<Rightarrow> 'i reply"

definition invoke :: "'i client \<Rightarrow> 'i api_call \<Rightarrow> 'i trace \<Rightarrow> 'i reply \<times> 'i trace" where
  "invoke m c t = (m (t @ [c]), t @ [c])"

definition pointee :: "'i \<Rightarrow> 'i reply \<Rightarrow> 'i" where
  "pointee idp r = (case reply_decoded r of None \<Rightarrow> idp | Some v \<Rightarrow> v)"

definition GetIdentityProvider ::
  "'i client \<Rightarrow> string \<Rightarrow> 'i \<Rightarrow> 'i trace \<Rightarrow> ('i \<times> Response option \<times> error option) \<times> 'i trace" where
  "GetIdentityProvider m ident idp t =
     (case invoke m (CallGet ident idp) t of
        (r, t') \<Rightarrow> ((pointee idp r, reply_response r, reply_err r), t'))"

definition CreateIdentityProvider ::
  "'i client \<Rightarrow> 'i \<Rightarrow> 'i trace \<Rightarrow> ('i \<times> Response option \<times> error option) \<times> 'i trace" where
  "CreateIdentityProvider m idp t =
     (case invoke m (CallCreate idp) t of
        (r, t') \<Rightarrow> ((pointee idp r, reply_response r, reply_err r), t'))"

definition UpdateIdentityProvider ::
  "'i client \<Rightarrow> string \<Rightarrow> 'i \<Rightarrow> 'i trace \<Rightarrow> ('i \<times> Response option \<times> error option) \<times> 'i trace" where
  "UpdateIdentityProvider m ident idp t =
     (case invoke m (CallUpdate ident idp) t of
        (r, t') \<Rightarrow> ((pointee idp r, reply_response r, reply_err r), t'))"

definition ActivateIdentityProvider ::
  "'i client \<Rightarrow> string \<Rightarrow> 'i trace \<Rightarrow> (Response option \<times> error option) \<times> 'i trace" where
  "ActivateIdentityProvider m ident t =
     (case invoke m (CallActivate ident) t of (r, t') \<Rightarrow> ((reply_response r, reply_err r), t'))"

definition DeactivateIdentityProvider ::
  "'i client \<Rightarrow> string \<Rightarrow> 'i trace \<Rightarrow> (Response option \<times> error option) \<times> 'i trace" where
  "DeactivateIdentityProvider m ident t =
     (case invoke m (CallDeactivate ident) t of (r, t') \<Rightarrow> ((reply_response r, reply_err r), t'))"

definition DeleteIdentityProvider ::
  "'i client \<Rightarrow> string \<Rightarrow> 'i trace \<Rightarrow> (Response option \<times> error option) \<times> 'i trace" where
  "DeleteIdentityProvider m ident t =
     (case invoke m (CallDelete ident) t of (r, t') \<Rightarrow> ((reply_response r, reply_err r), t'))"

subsection \<open>Error helpers\<close>

text \<open>
  Modelled from the spec: \<open>responseErr\<close> is called by the handlers and is not in the
  source files. "Errors are either propagated verbatim from the SDK/HTTP layer (network
  failures, non-404 error responses) or suppressed": it hands the SDK's error on as it
  is, with or without a response.
\<close>

definition responseErr :: "Response option \<Rightarrow> error option \<Rightarrow> error option" where
  "responseErr resp e = e"

text \<open>
  Modelled from the spec: \<open>suppressErrorOn404\<close> is called by the delete handler and is
  not in the source files. Errors are "suppressed when they represent an
  already-satisfied absence (404 on delete/deactivate/read)" and propagated otherwise,
  network failures included: no error for a response with status 404, \<open>responseErr\<close>
  for any other response and for none.
\<close>

definition suppressErrorOn404 :: "Response option \<Rightarrow> error option \<Rightarrow> error option" where
  "suppressErrorOn404 resp e =
     (case resp of
        None \<Rightarrow> responseErr resp e
      | Some r \<Rightarrow> if StatusCode r = 404 then None else responseErr resp e)"

subsection \<open>Calls shared by the identity-provider resources (okta/idp.go)\<close>

text \<open>
  \<open>resp.StatusCode\<close> on a nil \<open>resp\<close> panics: every such selector is a \<open>deref\<close>.
  The trace is returned also when the handler panics: the service has seen the calls.
\<close>

definition delete_step ::
  "ResourceData \<Rightarrow> 'i client \<Rightarrow> 'i trace \<Rightarrow> error option outcome \<times> 'i trace" where
  "delete_step d m t =
     (case DeleteIdentityProvider m (rd_id d) t of
        ((resp, e), t') \<Rightarrow>
          if e \<noteq> None then (Return (suppressErrorOn404 resp e), t')
          else (Return None, t'))"

definition resourceDeleteAnyIdp ::
  "ResourceData \<Rightarrow> 'i client \<Rightarrow> bool \<Rightarrow> 'i trace \<Rightarrow> error option outcome \<times> 'i trace" where
  "resourceDeleteAnyIdp d m active t =
     (if active then
        (case DeactivateIdentityProvider m (rd_id d) t of
           ((resp, e), t') \<Rightarrow>
             if e \<noteq> None then
               (case deref resp of
                  Panic \<Rightarrow> (Panic, t')
                | Return r \<Rightarrow>
                    if StatusCode r \<noteq> 404 then (Return e, t')
                    else delete_step d m t')
             else delete_step d m t')
      else delete_step d m t)"

definition resourceIdpDelete ::
  "ResourceData \<Rightarrow> 'i client \<Rightarrow> 'i trace \<Rightarrow> error option outcome \<times> 'i trace" where
  "resourceIdpDelete d m t =
     (case as_string (Get d ''status'') of
        Panic \<Rightarrow> (Panic, t)
      | Return status \<Rightarrow> resourceDeleteAnyIdp d m (status = ''ACTIVE'') t)"

text \<open>
  \<open>fetchIdp\<close>, \<open>updateIdp\<close> and \<open>createIdp\<close> return, next to the error, the object the
  caller's \<open>idp\<close> points to afterwards. Their \<open>idp = nil\<close> assigns the parameter, a
  copy of the caller's pointer: it changes neither that pointer nor the object.
\<close>

definition fetchIdp ::
  "string \<Rightarrow> 'i client \<Rightarrow> 'i \<Rightarrow> 'i trace \<Rightarrow> error option outcome \<times> 'i \<times> 'i trace" where
  "fetchIdp ident m idp t =
     (case GetIdentityProvider m ident idp t of
        ((idp', resp, e), t') \<Rightarrow>
          (obind (deref resp) (\<lambda>r.
             if StatusCode r = 404 then Return None
             else Return (responseErr resp e)),
           idp', t'))"

definition updateIdp ::
  "string \<Rightarrow> 'i client \<Rightarrow> 'i \<Rightarrow> 'i trace \<Rightarrow> error option outcome \<times> 'i \<times> 'i trace" where
  "updateIdp ident m idp t =
     (case UpdateIdentityProvider m ident idp t of
        ((idp', resp, e), t') \<Rightarrow>
          (obind (deref resp) (\<lambda>r.
             if StatusCode r = 404 then Return None
             else Return (responseErr resp e)),
           idp', t'))"

definition createIdp ::
  "'i client \<Rightarrow> 'i \<Rightarrow> 'i trace \<Rightarrow> error option outcome \<times> 'i \<times> 'i trace" where
  "createIdp m idp t =
     (case CreateIdentityProvider m idp t of
        ((idp', resp, e), t') \<Rightarrow>
          (obind (deref resp) (\<lambda>r.
             if StatusCode r = 404 then Return None
             else Return (responseErr resp e)),
           idp', t'))"

definition setIdpStatus ::
  "string \<Rightarrow> string \<Rightarrow> string \<Rightarrow> 'i client \<Rightarrow> 'i trace \<Rightarrow> error option \<times> 'i trace" where
  "setIdpStatus ident status desiredStatus m t =
     (if status \<noteq> desiredStatus then
        (if desiredStatus = ''INACTIVE'' then
           (case DeactivateIdentityProvider m ident t of
              ((resp, e), t') \<Rightarrow> (responseErr resp e, t'))
         else if desiredStatus = ''ACTIVE'' then
           (case ActivateIdentityProvider m ident t of
              ((resp, e), t') \<Rightarrow> (responseErr resp e, t'))
         else (None, t))
      else (None, t))"

definition getIdentityProviderExists ::
  "'i \<Rightarrow> ResourceData \<Rightarrow> 'i client \<Rightarrow> 'i trace \<Rightarrow> (bool \<times> error option) outcome \<times> 'i trace" where
  "getIdentityProviderExists idp d m t =
     (case GetIdentityProvider m (rd_id d) idp t of
        ((idp', resp, e), t') \<Rightarrow>
          (obind (deref resp) (\<lambda>r. Return (StatusCode r = 200, e)), t'))"

subsection \<open>The social identity-provider resource (okta/resource_social_idp.go)\<close>

text \<open>
  \<open>setNonPrimitives\<close> and \<open>convertStringSetToInterface\<close> are called by the read handler
  and are not in the source files; the handlers take them as parameters.
\<close>

record helpers =
  setNonPrimitives :: "(string \<times> value) list \<Rightarrow> ResourceData \<Rightarrow> error option \<times> ResourceData"
  convertStringSetToInterface :: "string list \<Rightarrow> value"

text \<open>
  The host's \<open>d.Set\<close> on a resource with schema \<open>sch\<close>. Its writer for a set-typed
  field turns a slice into a set and then asserts that the value is a set: any other
  value, such as a pointer to a struct, makes it panic. On the other fields a value the
  writer cannot take yields an error and no panic.
\<close>

fun is_collection :: "value \<Rightarrow> bool" where
  "is_collection (VSet xs) = True"
| "is_collection (VList xs) = True"
| "is_collection _ = False"

definition host_Set ::
  "(string \<times> schema_type) list \<Rightarrow> string \<Rightarrow> value \<Rightarrow> ResourceData \<Rightarrow> ResourceData outcome" where
  "host_Set sch key v d =
     (if map_of sch key = Some TypeSet \<and> \<not> is_collection v then Panic
      else Return (Set_field key v d))"

text \<open>
  One statement \<open>d.Set(key, expr)\<close> of the social resource, whose schema is
  \<open>buildIdpSchema socialIdpSchema\<close>: \<open>expr\<close> is evaluated first and may panic on a nil
  pointer; then the host's \<open>d.Set\<close> runs; the error it returns is dropped by the source.
\<close>

definition d_Set :: "string \<Rightarrow> value outcome \<Rightarrow> ResourceData \<Rightarrow> ResourceData outcome" where
  "d_Set key expr d = obind expr (\<lambda>v. host_Set (buildIdpSchema socialIdpSchema) key v d)"

fun run_steps :: "(ResourceData \<Rightarrow> ResourceData outcome) list \<Rightarrow> ResourceData \<Rightarrow> ResourceData outcome" where
  "run_steps [] d = Return d"
| "run_steps (s # ss) d = obind (s d) (run_steps ss)"

definition omap :: "('a \<Rightarrow> 'b) \<Rightarrow> 'a outcome \<Rightarrow> 'b outcome" where
  "omap f x = obind x (\<lambda>v. Return (f v))"

text \<open>The selector chains of the read handler; each arrow of a chain is a dereference.\<close>

definition idp_Policy :: "OIDCIdentityProvider \<Rightarrow> OIDCPolicy outcome" where
  "idp_Policy idp = deref (Policy idp)"

definition idp_Policy_Provisioning :: "OIDCIdentityProvider \<Rightarrow> IDPProvisioning outcome" where
  "idp_Policy_Provisioning idp = obind (idp_Policy idp) (\<lambda>p. deref (Provisioning p))"

definition idp_Policy_Provisioning_Conditions :: "OIDCIdentityProvider \<Rightarrow> IDPConditions outcome" where
  "idp_Policy_Provisioning_Conditions idp =
     obind (idp_Policy_Provisioning idp) (\<lambda>p. deref (Conditions p))"

definition idp_Policy_Provisioning_Groups :: "OIDCIdentityProvider \<Rightarrow> IDPAction outcome" where
  "idp_Policy_Provisioning_Groups idp =
     obind (idp_Policy_Provisioning idp) (\<lambda>p. deref (Provisioning_Groups p))"

definition idp_Policy_Subject :: "OIDCIdentityProvider \<Rightarrow> OIDCSubject outcome" where
  "idp_Policy_Subject idp = obind (idp_Policy idp) (\<lambda>p. deref (Subject p))"

definition idp_Policy_Subject_UserNameTemplate :: "OIDCIdentityProvider \<Rightarrow> UsernameTemplate outcome" where
  "idp_Policy_Subject_UserNameTemplate idp =
     obind (idp_Policy_Subject idp) (\<lambda>s. deref (UserNameTemplate s))"

definition idp_Protocol :: "OIDCIdentityProvider \<Rightarrow> OIDCProtocol outcome" where
  "idp_Protocol idp = deref (Protocol idp)"

definition idp_Protocol_Credentials_Client :: "OIDCIdentityProvider \<Rightarrow> OIDCClient outcome" where
  "idp_Protocol_Credentials_Client idp =
     obind (idp_Protocol idp) (\<lambda>p. obind (deref (Credentials p)) (\<lambda>c. deref (Client c)))"

text \<open>The statements of \<open>resourceSocialIdpRead\<close> between the fetch and the final return.\<close>

definition read_sets :: "OIDCIdentityProvider \<Rightarrow> (ResourceData \<Rightarrow> ResourceData outcome) list" where
  "read_sets idp =
     [d_Set ''name'' (Return (VString (Name idp))),
      d_Set ''max_clock_skew'' (omap (\<lambda>p. VInt (MaxClockSkew p)) (idp_Policy idp)),
      d_Set ''provisioning_action''
        (omap (\<lambda>p. VString (Provisioning_Action p)) (idp_Policy_Provisioning idp)),
      d_Set ''deprovisioned_action''
        (omap (\<lambda>c. VAction (Deprovisioned c)) (idp_Policy_Provisioning_Conditions idp)),
      d_Set ''suspended_action''
        (omap (\<lambda>c. VAction (Suspended c)) (idp_Policy_Provisioning_Conditions idp)),
      d_Set ''profile_master'' (omap (\<lambda>p. VBool (ProfileMaster p)) (idp_Policy_Provisioning idp)),
      d_Set ''groups_action'' (omap (\<lambda>g. VString (Action g)) (idp_Policy_Provisioning_Groups idp)),
      d_Set ''subject_match_type'' (omap (\<lambda>s. VString (MatchType s)) (idp_Policy_Subject idp)),
      d_Set ''username_template''
        (omap (\<lambda>u. VString (Template u)) (idp_Policy_Subject_UserNameTemplate idp)),
      d_Set ''client_id'' (omap (\<lambda>c. VString (ClientID c)) (idp_Protocol_Credentials_Client idp)),
      d_Set ''client_secret''
        (omap (\<lambda>c. VString (ClientSecret c)) (idp_Protocol_Credentials_Client idp)),
      (\<lambda>d. if IssuerMode idp \<noteq> [] then d_Set ''issuer_mode'' (Return (VString (IssuerMode idp))) d
           else Return d),
      (\<lambda>d. obind (idp_Policy idp) (\<lambda>p.
           case AccountLink p of
             None \<Rightarrow> Return d
           | Some link \<Rightarrow>
               run_steps
                 [d_Set ''account_link_action'' (Return (VString (AccountLink_Action link))),
                  d_Set ''account_link_group_include'' (Return (VFilter (Filter link)))] d))]"

definition resourceSocialIdpRead ::
  "helpers \<Rightarrow> ResourceData \<Rightarrow> OIDCIdentityProvider client \<Rightarrow> OIDCIdentityProvider trace
     \<Rightarrow> (error option \<times> ResourceData) outcome \<times> OIDCIdentityProvider trace" where
  "resourceSocialIdpRead h d m t =
     (case fetchIdp (rd_id d) m zero_OIDCIdentityProvider t of
        (Panic, idp, t') \<Rightarrow> (Panic, t')
      | (Return (Some e), idp, t') \<Rightarrow> (Return (Some e, d), t')
      | (Return None, idp, t') \<Rightarrow>
          (obind (run_steps (read_sets idp) d) (\<lambda>d'.
           obind (idp_Protocol idp) (\<lambda>p.
           Return (setNonPrimitives h [(''scopes'', convertStringSetToInterface h (Scopes p))] d'))),
           t'))"

definition resourceSocialIdpCreate ::
  "helpers \<Rightarrow> ResourceData \<Rightarrow> OIDCIdentityProvider client \<Rightarrow> OIDCIdentityProvider trace
     \<Rightarrow> (error option \<times> ResourceData) outcome \<times> OIDCIdentityProvider trace" where
  "resourceSocialIdpCreate h d m t =
     (case buildSocialIdp d of
        Panic \<Rightarrow> (Panic, t)
      | Return idp0 \<Rightarrow>
          (case createIdp m idp0 t of
             (Panic, idp, t1) \<Rightarrow> (Panic, t1)
           | (Return (Some e), idp, t1) \<Rightarrow> (Return (Some e, d), t1)
           | (Return None, idp, t1) \<Rightarrow>
               (let d1 = SetId (ID idp) d
                in case as_string (Get d1 ''status'') of
                     Panic \<Rightarrow> (Panic, t1)
                   | Return desired \<Rightarrow>
                       (case setIdpStatus (ID idp) (Status idp) desired m t1 of
                          (Some e, t2) \<Rightarrow> (Return (Some e, d1), t2)
                        | (None, t2) \<Rightarrow> resourceSocialIdpRead h d1 m t2))))"

definition resourceSocialIdpUpdate ::
  "helpers \<Rightarrow> ResourceData \<Rightarrow> OIDCIdentityProvider client \<Rightarrow> OIDCIdentityProvider trace
     \<Rightarrow> (error option \<times> ResourceData) outcome \<times> OIDCIdentityProvider trace" where
  "resourceSocialIdpUpdate h d m t =
     (case buildSocialIdp d of
        Panic \<Rightarrow> (Panic, t)
      | Return idp0 \<Rightarrow>
          (let d1 = Partial True d
           in case updateIdp (rd_id d1) m idp0 t of
                (Panic, idp, t1) \<Rightarrow> (Panic, t1)
              | (Return (Some e), idp, t1) \<Rightarrow> (Return (Some e, d1), t1)
              | (Return None, idp, t1) \<Rightarrow>
                  (let d2 = Partial False d1
                   in case as_string (Get d2 ''status'') of
                        Panic \<Rightarrow> (Panic, t1)
                      | Return desired \<Rightarrow>
                          (case setIdpStatus (ID idp) (Status idp) desired m t1 of
                             (Some e, t2) \<Rightarrow> (Return (Some e, d2), t2)
                           | (None, t2) \<Rightarrow> resourceSocialIdpRead h d2 m t2))))"

section \<open>Example configurations and clients\<close>

text \<open>
  A configured Google identity provider, before its creation (\<open>social_planned\<close>, no id
  yet) and once it exists (\<open>social_example\<close>); the payload built from it; the payload
  as the create call leaves it, with the assigned id and status (\<open>social_created\<close>);
  the remote object as a fetch decodes it from a service that sends no account link
  (\<open>social_remote\<close>); what a read of that object writes.
\<close>

definition social_example :: ResourceData where
  "social_example =
     \<lparr>rd_id = ''0oa1example'',
      rd_fields = map_of
        [(''name'', VString ''Corp Google''),
         (''status'', VString ''ACTIVE''),
         (''account_link_action'', VString ''AUTO''),
         (''account_link_group_include'', VSet [''00g1everyone'']),
         (''provisioning_action'', VString ''AUTO''),
         (''deprovisioned_action'', VString ''NONE''),
         (''suspended_action'', VString ''NONE''),
         (''groups_action'', VString ''NONE''),
         (''username_template'', VString ''idpuser.email''),
         (''subject_match_type'', VString ''USERNAME''),
         (''profile_master'', VBool False),
         (''request_signature_algorithm'', VString ''SHA-256''),
         (''request_signature_scope'', VString ''REQUEST''),
         (''response_signature_algorithm'', VString ''SHA-256''),
         (''response_signature_scope'', VString []),
         (''authorization_url'', VString []),
         (''authorization_binding'', VString []),
         (''token_url'', VString []),
         (''token_binding'', VString []),
         (''type'', VString ''GOOGLE''),
         (''scopes'', VSet [''openid'', ''email'']),
         (''protocol_type'', VString ''OIDC''),
         (''client_id'', VString ''abc123''),
         (''client_secret'', VString ''s3cret''),
         (''max_clock_skew'', VInt 120)],
      rd_partial = False,
      rd_writes = []\<rparr>"

definition social_planned :: ResourceData where
  "social_planned = SetId [] social_example"

definition social_unlinked :: ResourceData where
  "social_unlinked =
     social_example\<lparr>rd_fields :=
       (rd_fields social_example)(''account_link_group_include'' \<mapsto> VSet [])\<rparr>"

definition social_payload :: OIDCIdentityProvider where
  "social_payload =
     \<lparr>ID = [], IssuerMode = [],
      Name = ''Corp Google'',
      Policy = Some
        \<lparr>AccountLink = Some
           \<lparr>AccountLink_Action = ''AUTO'',
            Filter = Some \<lparr>Groups = Some \<lparr>Include = [''00g1everyone'']\<rparr>\<rparr>\<rparr>,
         MaxClockSkew = 120,
         Provisioning = Some
           \<lparr>Provisioning_Action = ''AUTO'',
            Conditions = Some
              \<lparr>Deprovisioned = Some \<lparr>Action = ''NONE''\<rparr>,
               Suspended = Some \<lparr>Action = ''NONE''\<rparr>\<rparr>,
            Provisioning_Groups = Some \<lparr>Action = ''NONE''\<rparr>,
            ProfileMaster = False\<rparr>,
         Subject = Some
           \<lparr>MatchType = ''USERNAME'',
            UserNameTemplate = Some \<lparr>Template = ''idpuser.email''\<rparr>\<rparr>\<rparr>,
      Protocol = Some
        \<lparr>Scopes = [''openid'', ''email''],
         Protocol_Type = ''OIDC'',
         Credentials = Some
           \<lparr>Client = Some \<lparr>ClientID = ''abc123'', ClientSecret = ''s3cret''\<rparr>\<rparr>\<rparr>,
      Status = [],
      Type = ''GOOGLE''\<rparr>"

definition social_created :: OIDCIdentityProvider where
  "social_created = social_payload\<lparr>ID := ''0oa1example'', Status := ''ACTIVE''\<rparr>"

definition social_remote :: OIDCIdentityProvider where
  "social_remote =
     \<lparr>ID = ''0oa1example'', IssuerMode = [],
      Name = ''Corp Google'',
      Policy = Some
        \<lparr>AccountLink = None,
         MaxClockSkew = 120,
         Provisioning = Some
           \<lparr>Provisioning_Action = ''AUTO'',
            Conditions = Some
              \<lparr>Deprovisioned = Some \<lparr>Action = ''NONE''\<rparr>,
               Suspended = Some \<lparr>Action = ''NONE''\<rparr>\<rparr>,
            Provisioning_Groups = Some \<lparr>Action = ''NONE''\<rparr>,
            ProfileMaster = False\<rparr>,
         Subject = Some
           \<lparr>MatchType = ''USERNAME'',
            UserNameTemplate = Some \<lparr>Template = ''idpuser.email''\<rparr>\<rparr>\<rparr>,
      Protocol = Some
        \<lparr>Scopes = [''openid'', ''email''],
         Protocol_Type = ''OIDC'',
         Credentials = Some
           \<lparr>Client = Some \<lparr>ClientID = ''abc123'', ClientSecret = ''s3cret''\<rparr>\<rparr>\<rparr>,
      Status = ''ACTIVE'',
      Type = ''GOOGLE''\<rparr>"

definition social_writes :: "(string \<times> value) list" where
  "social_writes =
     [(''name'', VString ''Corp Google''),
      (''max_clock_skew'', VInt 120),
      (''provisioning_action'', VString ''AUTO''),
      (''deprovisioned_action'', VAction (Some \<lparr>Action = ''NONE''\<rparr>)),
      (''suspended_action'', VAction (Some \<lparr>Action = ''NONE''\<rparr>)),
      (''profile_master'', VBool False),
      (''groups_action'', VString ''NONE''),
      (''subject_match_type'', VString ''USERNAME''),
      (''username_template'', VString ''idpuser.email''),
      (''client_id'', VString ''abc123''),
      (''client_secret'', VString ''s3cret''),
      (''scopes'', VList [''openid'', ''email''])]"

text \<open>
  Helpers for the examples: \<open>setNonPrimitives\<close> writes each pair and reports no error,
  \<open>convertStringSetToInterface\<close> keeps the strings.
\<close>

definition example_helpers :: helpers where
  "example_helpers =
     \<lparr>setNonPrimitives = (\<lambda>kvs d. (None, fold (\<lambda>(key, v). Set_field key v) kvs d)),
      convertStringSetToInterface = VList\<rparr>"

text \<open>
  Replies and clients. \<open>http_reply\<close> is a call that came back with an HTTP response;
  \<open>found_reply\<close> one that also decoded the remote object. \<open>client_gone\<close> is the service
  after the object was removed, \<open>client_500\<close> a failing service, \<open>client_delete_500\<close>
  one that fails on the delete call only, \<open>client_ok\<close> one that accepts every call,
  \<open>client_created\<close> the service that creates the object (\<open>social_created\<close>) and
  serves it (\<open>social_remote\<close>), \<open>client_create_404\<close> the same with a 404 on the
  create call, and \<open>client_netfail\<close> a connection that yields no response at all.
\<close>

definition http_reply :: "int \<Rightarrow> error option \<Rightarrow> 'i reply" where
  "http_reply code e =
     \<lparr>reply_decoded = None, reply_response = Some \<lparr>StatusCode = code\<rparr>, reply_err = e\<rparr>"

definition found_reply :: "'i \<Rightarrow> 'i reply" where
  "found_reply idp =
     \<lparr>reply_decoded = Some idp, reply_response = Some \<lparr>StatusCode = 200\<rparr>, reply_err = None\<rparr>"

fun is_delete :: "'i api_call \<Rightarrow> bool" where
  "is_delete (CallDelete ident) = True"
| "is_delete _ = False"

fun is_create :: "'i api_call \<Rightarrow> bool" where
  "is_create (CallCreate idp) = True"
| "is_create _ = False"

fun is_get :: "'i api_call \<Rightarrow> bool" where
  "is_get (CallGet ident idp) = True"
| "is_get _ = False"

definition client_gone :: "'i client" where
  "client_gone t = http_reply 404 (Some ''404 Not Found'')"

definition client_500 :: "'i client" where
  "client_500 t = http_reply 500 (Some ''500 Internal Server Error'')"

definition client_delete_500 :: "'i client" where
  "client_delete_500 t =
     (if is_delete (last t) then http_reply 500 (Some ''500 Internal Server Error'')
      else http_reply 404 (Some ''404 Not Found''))"

definition client_ok :: "'i client" where
  "client_ok t = http_reply 200 None"

definition client_created :: "OIDCIdentityProvider client" where
  "client_created t =
     (if is_create (last t) then found_reply social_created
      else if is_get (last t) then found_reply social_remote
      else http_reply 200 None)"

definition client_create_404 :: "OIDCIdentityProvider client" where
  "client_create_404 t =
     (if is_create (last t) then http_reply 404 (Some ''404 Not Found'')
      else if is_get (last t) then found_reply social_remote
      else http_reply 200 None)"

definition client_netfail :: "'i client" where
  "client_netfail t =
     \<lparr>reply_decoded = None, reply_response = None,
      reply_err = Some ''dial tcp: i/o timeout''\<rparr>"

section \<open>Vocabulary of the properties\<close>

text \<open>
  A call \<open>failed_with\<close> a status when the SDK returned an error together with an HTTP
  response of that status. A reply is \<open>tolerated\<close> by the delete handler when it is no
  error at all or a failure with status 404.
\<close>

definition failed_with :: "'i reply \<Rightarrow> int \<Rightarrow> bool" where
  "failed_with r code =
     (reply_err r \<noteq> None \<and> map_option StatusCode (reply_response r) = Some code)"

definition tolerated :: "'i reply \<Rightarrow> bool" where
  "tolerated r = (reply_err r = None \<or> failed_with r 404)"

section \<open>Properties of the builders\<close>

subsection \<open>What a conforming resource data holds\<close>

lemma has_type_string: "has_type TypeString v \<Longrightarrow> \<exists>s. v = Some (VString s)"
  by (erule has_type.elims) simp_all

lemma has_type_int: "has_type TypeInt v \<Longrightarrow> \<exists>i. v = Some (VInt i)"
  by (erule has_type.elims) simp_all

lemma has_type_set: "has_type TypeSet v \<Longrightarrow> \<exists>xs. v = Some (VSet xs)"
  by (erule has_type.elims) simp_all

lemma conforms_field: "conforms sch d \<Longrightarrow> (key, ty) \<in> set sch \<Longrightarrow> has_type ty (Get d key)"
  by (auto simp: conforms_def list_all_iff)

lemma conforms_string:
  "conforms sch d \<Longrightarrow> (key, TypeString) \<in> set sch \<Longrightarrow> \<exists>s. Get d key = Some (VString s)"
  by (blast dest: conforms_field has_type_string)

lemma conforms_int:
  "conforms sch d \<Longrightarrow> (key, TypeInt) \<in> set sch \<Longrightarrow> \<exists>i. Get d key = Some (VInt i)"
  by (blast dest: conforms_field has_type_int)

lemma conforms_set:
  "conforms sch d \<Longrightarrow> (key, TypeSet) \<in> set sch \<Longrightarrow> \<exists>xs. Get d key = Some (VSet xs)"
  by (blast dest: conforms_field has_type_set)

lemma conforms_base: "conforms (buildIdpSchema sch) d \<Longrightarrow> conforms baseIdpSchema d"
  by (simp add: conforms_def buildIdpSchema_def)

lemma conforms_status:
  assumes "conforms (buildIdpSchema sch) d"
  shows "\<exists>desired. Get d ''status'' = Some (VString desired)"
  using conforms_string [OF conforms_base [OF assms], of "''status''"]
  by (auto simp: baseIdpSchema_def)

lemma Get_SetId [simp]: "Get (SetId v d) key = Get d key"
  by (simp add: Get_def SetId_def)

lemma rd_id_SetId [simp]: "rd_id (SetId v d) = v"
  by (simp add: SetId_def)

lemma conforms_example: "conforms (buildIdpSchema socialIdpSchema) social_example"
  by (simp add: conforms_def buildIdpSchema_def baseIdpSchema_def socialIdpSchema_def
      social_example_def Get_def)

lemma Get_planned: "Get social_planned key = Get social_example key"
  by (simp add: social_planned_def)

lemma conforms_planned: "conforms (buildIdpSchema socialIdpSchema) social_planned"
  using conforms_example by (simp add: conforms_def Get_planned)

lemma Get_unlinked:
  "Get social_unlinked key =
     (if key = ''account_link_group_include'' then Some (VSet []) else Get social_example key)"
  by (simp add: social_unlinked_def Get_def)

lemma conforms_unlinked: "conforms baseIdpSchema social_unlinked"
  by (simp add: conforms_def baseIdpSchema_def Get_unlinked)
    (simp add: social_example_def Get_def)

lemma status_example: "Get social_example ''status'' = Some (VString ''ACTIVE'')"
  by (simp add: social_example_def Get_def)

subsection \<open>The sub-builders on fields of the right type\<close>

lemma NewAccountLink_eq:
  assumes "Get d ''account_link_group_include'' = Some (VSet link)"
    and "Get d ''account_link_action'' = Some (VString action)"
  shows "NewAccountLink d =
     Return (Some \<lparr>AccountLink_Action = action,
       Filter = (if link = [] then None else Some \<lparr>Groups = Some \<lparr>Include = link\<rparr>\<rparr>)\<rparr>)"
  using assms by (simp add: NewAccountLink_def)

lemma NewIdpProvisioning_eq:
  assumes "Get d ''provisioning_action'' = Some (VString a)"
    and "Get d ''deprovisioned_action'' = Some (VString b)"
    and "Get d ''suspended_action'' = Some (VString c)"
    and "Get d ''groups_action'' = Some (VString g)"
  shows "NewIdpProvisioning d = Return (Some
       \<lparr>Provisioning_Action = a,
        Conditions = Some
          \<lparr>Deprovisioned = Some \<lparr>Action = b\<rparr>,
           Suspended = Some \<lparr>Action = c\<rparr>\<rparr>,
        Provisioning_Groups = Some \<lparr>Action = g\<rparr>,
        ProfileMaster = False\<rparr>)"
  using assms by (simp add: NewIdpProvisioning_def)

lemma buildSocialIdp_conforms:
  assumes "conforms (buildIdpSchema socialIdpSchema) d"
  shows "\<exists>name type link action skew pa da sa ga mt ut scopes pt cid cs.
     Get d ''name'' = Some (VString name) \<and>
     Get d ''type'' = Some (VString type) \<and>
     Get d ''account_link_group_include'' = Some (VSet link) \<and>
     Get d ''account_link_action'' = Some (VString action) \<and>
     Get d ''max_clock_skew'' = Some (VInt skew) \<and>
     Get d ''provisioning_action'' = Some (VString pa) \<and>
     Get d ''deprovisioned_action'' = Some (VString da) \<and>
     Get d ''suspended_action'' = Some (VString sa) \<and>
     Get d ''groups_action'' = Some (VString ga) \<and>
     Get d ''subject_match_type'' = Some (VString mt) \<and>
     Get d ''username_template'' = Some (VString ut) \<and>
     Get d ''scopes'' = Some (VSet scopes) \<and>
     Get d ''protocol_type'' = Some (VString pt) \<and>
     Get d ''client_id'' = Some (VString cid) \<and>
     Get d ''client_secret'' = Some (VString cs) \<and>
     NewAccountLink d = Return (Some \<lparr>AccountLink_Action = action,
       Filter = (if link = [] then None else Some \<lparr>Groups = Some \<lparr>Include = link\<rparr>\<rparr>)\<rparr>) \<and>
     NewIdpProvisioning d = Return (Some
       \<lparr>Provisioning_Action = pa,
        Conditions = Some
          \<lparr>Deprovisioned = Some \<lparr>Action = da\<rparr>,
           Suspended = Some \<lparr>Action = sa\<rparr>\<rparr>,
        Provisioning_Groups = Some \<lparr>Action = ga\<rparr>,
        ProfileMaster = False\<rparr>) \<and>
     buildSocialIdp d = Return
       \<lparr>ID = [], IssuerMode = [],
        Name = name,
        Policy = Some
          \<lparr>AccountLink = Some \<lparr>AccountLink_Action = action,
               Filter = (if link = [] then None else Some \<lparr>Groups = Some \<lparr>Include = link\<rparr>\<rparr>)\<rparr>,
           MaxClockSkew = skew,
           Provisioning = Some
             \<lparr>Provisioning_Action = pa,
              Conditions = Some
                \<lparr>Deprovisioned = Some \<lparr>Action = da\<rparr>,
                 Suspended = Some \<lparr>Action = sa\<rparr>\<rparr>,
              Provisioning_Groups = Some \<lparr>Action = ga\<rparr>,
              ProfileMaster = False\<rparr>,
           Subject = Some
             \<lparr>MatchType = mt,
              UserNameTemplate = Some \<lparr>Template = ut\<rparr>\<rparr>\<rparr>,
        Protocol = Some
          \<lparr>Scopes = scopes,
           Protocol_Type = pt,
           Credentials = Some
             \<lparr>Client = Some \<lparr>ClientID = cid, ClientSecret = cs\<rparr>\<rparr>\<rparr>,
        Status = [],
        Type = type\<rparr>"
proof -
  note sch = buildIdpSchema_def baseIdpSchema_def socialIdpSchema_def
  obtain name where 1: "Get d ''name'' = Some (VString name)"
    using conforms_string [OF assms, of "''name''"] by (auto simp: sch)
  obtain type where 2: "Get d ''type'' = Some (VString type)"
    using conforms_string [OF assms, of "''type''"] by (auto simp: sch)
  obtain link where 3: "Get d ''account_link_group_include'' = Some (VSet link)"
    using conforms_set [OF assms, of "''account_link_group_include''"] by (auto simp: sch)
  obtain action where 4: "Get d ''account_link_action'' = Some (VString action)"
    using conforms_string [OF assms, of "''account_link_action''"] by (auto simp: sch)
  obtain skew where 5: "Get d ''max_clock_skew'' = Some (VInt skew)"
    using conforms_int [OF assms, of "''max_clock_skew''"] by (auto simp: sch)
  obtain pa where 6: "Get d ''provisioning_action'' = Some (VString pa)"
    using conforms_string [OF assms, of "''provisioning_action''"] by (auto simp: sch)
  obtain da where 7: "Get d ''deprovisioned_action'' = Some (VString da)"
    using conforms_string [OF assms, of "''deprovisioned_action''"] by (auto simp: sch)
  obtain sa where 8: "Get d ''suspended_action'' = Some (VString sa)"
    using conforms_string [OF assms, of "''suspended_action''"] by (auto simp: sch)
  obtain ga where 9: "Get d ''groups_action'' = Some (VString ga)"
    using conforms_string [OF assms, of "''groups_action''"] by (auto simp: sch)
  obtain mt where 10: "Get d ''subject_match_type'' = Some (VString mt)"
    using conforms_string [OF assms, of "''subject_match_type''"] by (auto simp: sch)
  obtain ut where 11: "Get d ''username_template'' = Some (VString ut)"
    using conforms_string [OF assms, of "''username_template''"] by (auto simp: sch)
  obtain scopes where 12: "Get d ''scopes'' = Some (VSet scopes)"
    using conforms_set [OF assms, of "''scopes''"] by (auto simp: sch)
  obtain pt where 13: "Get d ''protocol_type'' = Some (VString pt)"
    using conforms_string [OF assms, of "''protocol_type''"] by (auto simp: sch)
  obtain cid where 14: "Get d ''client_id'' = Some (VString cid)"
    using conforms_string [OF assms, of "''client_id''"] by (auto simp: sch)
  obtain cs where 15: "Get d ''client_secret'' = Some (VString cs)"
    using conforms_string [OF assms, of "''client_secret''"] by (auto simp: sch)
  note al = NewAccountLink_eq [OF 3 4] and pr = NewIdpProvisioning_eq [OF 6 7 8 9]
  have b: "buildSocialIdp d = Return
       \<lparr>ID = [], IssuerMode = [],
        Name = name,
        Policy = Some
          \<lparr>AccountLink = Some \<lparr>AccountLink_Action = action,
               Filter = (if link = [] then None else Some \<lparr>Groups = Some \<lparr>Include = link\<rparr>\<rparr>)\<rparr>,
           MaxClockSkew = skew,
           Provisioning = Some
             \<lparr>Provisioning_Action = pa,
              Conditions = Some
                \<lparr>Deprovisioned = Some \<lparr>Action = da\<rparr>,
                 Suspended = Some \<lparr>Action = sa\<rparr>\<rparr>,
              Provisioning_Groups = Some \<lparr>Action = ga\<rparr>,
              ProfileMaster = False\<rparr>,
           Subject = Some
             \<lparr>MatchType = mt,
              UserNameTemplate = Some \<lparr>Template = ut\<rparr>\<rparr>\<rparr>,
        Protocol = Some
          \<lparr>Scopes = scopes,
           Protocol_Type = pt,
           Credentials = Some
             \<lparr>Client = Some \<lparr>ClientID = cid, ClientSecret = cs\<rparr>\<rparr>\<rparr>,
        Status = [],
        Type = type\<rparr>"
    unfolding buildSocialIdp_def by (simp add: 1 2 5 10 11 12 13 14 15 al pr)
  from 1 2 3 4 5 6 7 8 9 10 11 12 13 14 15 al pr b show ?thesis
    by blast
qed

lemma buildSocialIdp_returns:
  assumes "conforms (buildIdpSchema socialIdpSchema) d"
  shows "\<exists>idp0. buildSocialIdp d = Return idp0"
  using buildSocialIdp_conforms [OF assms] by blast

lemma buildSocialIdp_example: "buildSocialIdp social_example = Return social_payload"
  by (simp add: buildSocialIdp_def NewAccountLink_def NewIdpProvisioning_def
      social_example_def social_payload_def Get_def)

lemma buildSocialIdp_planned: "buildSocialIdp social_planned = Return social_payload"
  using buildSocialIdp_example
  by (simp add: buildSocialIdp_def NewAccountLink_def NewIdpProvisioning_def Get_planned)

subsection \<open>The payload of a social identity provider\<close>

text \<open>
  Claim C5. \<open>buildSocialIdp\<close> takes the resource data and yields only a payload: it has
  no state to change and no error to return. On every resource data that conforms to
  the schema of the social identity provider it returns (no type assertion fails), and
  each configured field sits at its place in the nested structure: name and type at the
  top; max_clock_skew, the subject match type and the username template under the
  policy; the provisioning action with the deprovisioned, suspended and groups actions
  under the policy's provisioning, built by \<open>NewIdpProvisioning\<close>; the account-link
  action and groups under the policy's account link, built by \<open>NewAccountLink\<close>;
  scopes, protocol type, client id and client secret under the protocol. The fields
  that no configuration field feeds (\<open>ID\<close>, \<open>Status\<close>, \<open>IssuerMode\<close>,
  \<open>ProfileMaster\<close>) keep their zero values.
\<close>

theorem buildSocialIdp_structure:
  assumes "conforms (buildIdpSchema socialIdpSchema) d"
  shows "\<exists>idp policy link prov conds dep sus grp subj tmpl proto creds client.
           buildSocialIdp d = Return idp \<and>
           Get d ''name'' = Some (VString (Name idp)) \<and>
           Get d ''type'' = Some (VString (Type idp)) \<and>
           ID idp = [] \<and> Status idp = [] \<and> IssuerMode idp = [] \<and>
           Policy idp = Some policy \<and>
           Get d ''max_clock_skew'' = Some (VInt (MaxClockSkew policy)) \<and>
           Subject policy = Some subj \<and>
           Get d ''subject_match_type'' = Some (VString (MatchType subj)) \<and>
           UserNameTemplate subj = Some tmpl \<and>
           Get d ''username_template'' = Some (VString (Template tmpl)) \<and>
           NewIdpProvisioning d = Return (Provisioning policy) \<and>
           Provisioning policy = Some prov \<and>
           Get d ''provisioning_action'' = Some (VString (Provisioning_Action prov)) \<and>
           ProfileMaster prov = False \<and>
           Conditions prov = Some conds \<and>
           Deprovisioned conds = Some dep \<and>
           Get d ''deprovisioned_action'' = Some (VString (Action dep)) \<and>
           Suspended conds = Some sus \<and>
           Get d ''suspended_action'' = Some (VString (Action sus)) \<and>
           Provisioning_Groups prov = Some grp \<and>
           Get d ''groups_action'' = Some (VString (Action grp)) \<and>
           NewAccountLink d = Return (AccountLink policy) \<and>
           AccountLink policy = Some link \<and>
           Get d ''account_link_action'' = Some (VString (AccountLink_Action link)) \<and>
           Get d ''account_link_group_include'' =
             Some (VSet (case Filter link of
                           None \<Rightarrow> []
                         | Some f \<Rightarrow> (case Groups f of None \<Rightarrow> [] | Some g \<Rightarrow> Include g))) \<and>
           Protocol idp = Some proto \<and>
           Get d ''scopes'' = Some (VSet (Scopes proto)) \<and>
           Get d ''protocol_type'' = Some (VString (Protocol_Type proto)) \<and>
           Credentials proto = Some creds \<and>
           Client creds = Some client \<and>
           Get d ''client_id'' = Some (VString (ClientID client)) \<and>
           Get d ''client_secret'' = Some (VString (ClientSecret client))"
proof -
  from buildSocialIdp_conforms [OF assms]
  obtain name type link action skew pa da sa ga mt ut scopes pt cid cs where
    g: "Get d ''name'' = Some (VString name)"
      "Get d ''type'' = Some (VString type)"
      "Get d ''account_link_group_include'' = Some (VSet link)"
      "Get d ''account_link_action'' = Some (VString action)"
      "Get d ''max_clock_skew'' = Some (VInt skew)"
      "Get d ''provisioning_action'' = Some (VString pa)"
      "Get d ''deprovisioned_action'' = Some (VString da)"
      "Get d ''suspended_action'' = Some (VString sa)"
      "Get d ''groups_action'' = Some (VString ga)"
      "Get d ''subject_match_type'' = Some (VString mt)"
      "Get d ''username_template'' = Some (VString ut)"
      "Get d ''scopes'' = Some (VSet scopes)"
      "Get d ''protocol_type'' = Some (VString pt)"
      "Get d ''client_id'' = Some (VString cid)"
      "Get d ''client_secret'' = Some (VString cs)"
    and al: "NewAccountLink d = Return (Some \<lparr>AccountLink_Action = action,
       Filter = (if link = [] then None else Some \<lparr>Groups = Some \<lparr>Include = link\<rparr>\<rparr>)\<rparr>)"
    and pr: "NewIdpProvisioning d = Return (Some
       \<lparr>Provisioning_Action = pa,
        Conditions = Some
          \<lparr>Deprovisioned = Some \<lparr>Action = da\<rparr>,
           Suspended = Some \<lparr>Action = sa\<rparr>\<rparr>,
        Provisioning_Groups = Some \<lparr>Action = ga\<rparr>,
        ProfileMaster = False\<rparr>)"
    and b: "buildSocialIdp d = Return
       \<lparr>ID = [], IssuerMode = [],
        Name = name,
        Policy = Some
          \<lparr>AccountLink = Some \<lparr>AccountLink_Action = action,
               Filter = (if link = [] then None else Some \<lparr>Groups = Some \<lparr>Include = link\<rparr>\<rparr>)\<rparr>,
           MaxClockSkew = skew,
           Provisioning = Some
             \<lparr>Provisioning_Action = pa,
              Conditions = Some
                \<lparr>Deprovisioned = Some \<lparr>Action = da\<rparr>,
                 Suspended = Some \<lparr>Action = sa\<rparr>\<rparr>,
              Provisioning_Groups = Some \<lparr>Action = ga\<rparr>,
              ProfileMaster = False\<rparr>,
           Subject = Some
             \<lparr>MatchType = mt,
              UserNameTemplate = Some \<lparr>Template = ut\<rparr>\<rparr>\<rparr>,
        Protocol = Some
          \<lparr>Scopes = scopes,
           Protocol_Type = pt,
           Credentials = Some
             \<lparr>Client = Some \<lparr>ClientID = cid, ClientSecret = cs\<rparr>\<rparr>\<rparr>,
        Status = [],
        Type = type\<rparr>"
    by blast
  show ?thesis
    unfolding b al pr by (simp add: g)
qed

text \<open>The example configuration conforms, and its payload is \<open>social_payload\<close>.\<close>

theorem buildSocialIdp_structure_witness:
  "conforms (buildIdpSchema socialIdpSchema) social_example \<and>
   buildSocialIdp social_example = Return social_payload"
  using buildSocialIdp_structure [OF conforms_example] conforms_example buildSocialIdp_example
  by simp

subsection \<open>The account link\<close>

text \<open>
  Claim C9. On every resource data that conforms to the base schema, \<open>NewAccountLink\<close>
  returns an account link whose \<open>Filter\<close> is nil exactly when the
  account_link_group_include set is empty; when the set is not empty,
  \<open>Filter.Groups.Include\<close> is that set; in both cases \<open>Action\<close> is the configured
  account_link_action.
\<close>

theorem NewAccountLink_filter:
  assumes "conforms baseIdpSchema d"
  shows "\<exists>link al.
           Get d ''account_link_group_include'' = Some (VSet link) \<and>
           NewAccountLink d = Return (Some al) \<and>
           (Filter al = None) = (link = []) \<and>
           (link \<noteq> [] \<longrightarrow> (\<exists>f g. Filter al = Some f \<and> Groups f = Some g \<and> Include g = link)) \<and>
           Get d ''account_link_action'' = Some (VString (AccountLink_Action al))"
proof -
  obtain link where l: "Get d ''account_link_group_include'' = Some (VSet link)"
    using conforms_set [OF assms, of "''account_link_group_include''"]
    by (auto simp: baseIdpSchema_def)
  obtain action where a: "Get d ''account_link_action'' = Some (VString action)"
    using conforms_string [OF assms, of "''account_link_action''"]
    by (auto simp: baseIdpSchema_def)
  show ?thesis
    using l a by (simp add: NewAccountLink_eq [OF l a])
qed

text \<open>With one group the filter holds it; with none the filter is nil.\<close>

theorem NewAccountLink_filter_witness:
  "conforms baseIdpSchema social_example \<and>
   NewAccountLink social_example =
     Return (Some \<lparr>AccountLink_Action = ''AUTO'',
       Filter = Some \<lparr>Groups = Some \<lparr>Include = [''00g1everyone'']\<rparr>\<rparr>\<rparr>) \<and>
   conforms baseIdpSchema social_unlinked \<and>
   NewAccountLink social_unlinked =
     Return (Some \<lparr>AccountLink_Action = ''AUTO'', Filter = None\<rparr>)"
proof -
  have c: "conforms baseIdpSchema social_example"
    by (rule conforms_base [OF conforms_example])
  have e: "Get social_example ''account_link_group_include'' = Some (VSet [''00g1everyone''])"
    "Get social_example ''account_link_action'' = Some (VString ''AUTO'')"
    by (simp_all add: social_example_def Get_def)
  have u: "Get social_unlinked ''account_link_group_include'' = Some (VSet [])"
    "Get social_unlinked ''account_link_action'' = Some (VString ''AUTO'')"
    by (simp_all add: Get_unlinked e)
  show ?thesis
    using NewAccountLink_filter [OF c] NewAccountLink_filter [OF conforms_unlinked]
      c conforms_unlinked
    by (simp add: NewAccountLink_eq [OF e] NewAccountLink_eq [OF u])
qed

subsection \<open>The signatures\<close>

text \<open>
  Claim C10. On every resource data that conforms to the base schema and for each of the
  keys \<open>request\<close> and \<open>response\<close>, \<open>NewSignature\<close> returns nil exactly when the
  field \<open>key_signature_scope\<close> is the empty string; otherwise it returns a signature
  whose \<open>Algorithm\<close> is the field \<open>key_signature_algorithm\<close> and whose \<open>Scope\<close> is
  the field \<open>key_signature_scope\<close>.
\<close>

theorem NewSignature_scope:
  assumes "conforms baseIdpSchema d"
    and "key = ''request'' \<or> key = ''response''"
  shows "\<exists>scope algorithm.
           Get d (key @ ''_signature_scope'') = Some (VString scope) \<and>
           Get d (key @ ''_signature_algorithm'') = Some (VString algorithm) \<and>
           (NewSignature d key = Return None) = (scope = []) \<and>
           (scope \<noteq> [] \<longrightarrow>
              NewSignature d key =
                Return (Some \<lparr>Signature = Some \<lparr>Algorithm = algorithm, Scope = scope\<rparr>\<rparr>))"
proof -
  obtain scope where s: "Get d (key @ ''_signature_scope'') = Some (VString scope)"
    using conforms_string [OF assms(1), of "key @ ''_signature_scope''"] assms(2)
    by (auto simp: baseIdpSchema_def)
  obtain algorithm where a: "Get d (key @ ''_signature_algorithm'') = Some (VString algorithm)"
    using conforms_string [OF assms(1), of "key @ ''_signature_algorithm''"] assms(2)
    by (auto simp: baseIdpSchema_def)
  show ?thesis
    using s a by (simp add: NewSignature_def Let_def)
qed

text \<open>
  The example signs requests (scope \<open>REQUEST\<close>) and leaves the response scope empty.
\<close>

theorem NewSignature_scope_witness:
  "conforms baseIdpSchema social_example \<and>
   NewSignature social_example ''request'' =
     Return (Some \<lparr>Signature = Some \<lparr>Algorithm = ''SHA-256'', Scope = ''REQUEST''\<rparr>\<rparr>) \<and>
   NewSignature social_example ''response'' = Return None"
proof -
  have c: "conforms baseIdpSchema social_example"
    by (rule conforms_base [OF conforms_example])
  have e: "NewSignature social_example ''request'' =
       Return (Some \<lparr>Signature = Some \<lparr>Algorithm = ''SHA-256'', Scope = ''REQUEST''\<rparr>\<rparr>)"
    "NewSignature social_example ''response'' = Return None"
    by (simp_all add: NewSignature_def social_example_def Get_def)
  show ?thesis
    using NewSignature_scope [OF c, of "''request''"] NewSignature_scope [OF c, of "''response''"] c e
    by simp
qed


section \<open>Properties of the lifecycle handlers\<close>

subsection \<open>What each SDK call adds to the trace\<close>

lemma Deactivate_eq:
  "DeactivateIdentityProvider m ident t =
     ((reply_response (m (t @ [CallDeactivate ident])), reply_err (m (t @ [CallDeactivate ident]))),
      t @ [CallDeactivate ident])"
  by (simp add: DeactivateIdentityProvider_def invoke_def)

lemma Activate_eq:
  "ActivateIdentityProvider m ident t =
     ((reply_response (m (t @ [CallActivate ident])), reply_err (m (t @ [CallActivate ident]))),
      t @ [CallActivate ident])"
  by (simp add: ActivateIdentityProvider_def invoke_def)

lemma Delete_eq:
  "DeleteIdentityProvider m ident t =
     ((reply_response (m (t @ [CallDelete ident])), reply_err (m (t @ [CallDelete ident]))),
      t @ [CallDelete ident])"
  by (simp add: DeleteIdentityProvider_def invoke_def)

lemma Get_eq:
  "GetIdentityProvider m ident idp t =
     ((pointee idp (m (t @ [CallGet ident idp])),
       reply_response (m (t @ [CallGet ident idp])), reply_err (m (t @ [CallGet ident idp]))),
      t @ [CallGet ident idp])"
  by (simp add: GetIdentityProvider_def invoke_def)

lemma Create_eq:
  "CreateIdentityProvider m idp t =
     ((pointee idp (m (t @ [CallCreate idp])),
       reply_response (m (t @ [CallCreate idp])), reply_err (m (t @ [CallCreate idp]))),
      t @ [CallCreate idp])"
  by (simp add: CreateIdentityProvider_def invoke_def)

lemma Update_eq:
  "UpdateIdentityProvider m ident idp t =
     ((pointee idp (m (t @ [CallUpdate ident idp])),
       reply_response (m (t @ [CallUpdate ident idp])), reply_err (m (t @ [CallUpdate ident idp]))),
      t @ [CallUpdate ident idp])"
  by (simp add: UpdateIdentityProvider_def invoke_def)

subsection \<open>The shared calls in terms of the reply\<close>

lemma fetchIdp_eq:
  "fetchIdp ident m idp t =
     (obind (deref (reply_response (m (t @ [CallGet ident idp])))) (\<lambda>r.
        if StatusCode r = 404 then Return None
        else Return (reply_err (m (t @ [CallGet ident idp])))),
      pointee idp (m (t @ [CallGet ident idp])), t @ [CallGet ident idp])"
  by (simp add: fetchIdp_def Get_eq responseErr_def cong: if_cong)

lemma createIdp_eq:
  "createIdp m idp t =
     (obind (deref (reply_response (m (t @ [CallCreate idp])))) (\<lambda>r.
        if StatusCode r = 404 then Return None
        else Return (reply_err (m (t @ [CallCreate idp])))),
      pointee idp (m (t @ [CallCreate idp])), t @ [CallCreate idp])"
  by (simp add: createIdp_def Create_eq responseErr_def cong: if_cong)

lemma updateIdp_eq:
  "updateIdp ident m idp t =
     (obind (deref (reply_response (m (t @ [CallUpdate ident idp])))) (\<lambda>r.
        if StatusCode r = 404 then Return None
        else Return (reply_err (m (t @ [CallUpdate ident idp])))),
      pointee idp (m (t @ [CallUpdate ident idp])), t @ [CallUpdate ident idp])"
  by (simp add: updateIdp_def Update_eq responseErr_def cong: if_cong)

lemma setIdpStatus_eq:
  "setIdpStatus ident status desired m t =
     (if status = desired then (None, t)
      else if desired = ''INACTIVE''
        then (reply_err (m (t @ [CallDeactivate ident])), t @ [CallDeactivate ident])
      else if desired = ''ACTIVE''
        then (reply_err (m (t @ [CallActivate ident])), t @ [CallActivate ident])
      else (None, t))"
  by (simp add: setIdpStatus_def Deactivate_eq Activate_eq responseErr_def)

lemma delete_step_tolerated:
  "tolerated (m (t @ [CallDelete (rd_id d)])) \<Longrightarrow>
   delete_step d m t = (Return None, t @ [CallDelete (rd_id d)])"
  by (auto simp: delete_step_def Delete_eq tolerated_def failed_with_def suppressErrorOn404_def)

lemma delete_step_failed:
  "failed_with (m (t @ [CallDelete (rd_id d)])) code \<Longrightarrow> code \<noteq> 404 \<Longrightarrow>
   delete_step d m t =
     (Return (reply_err (m (t @ [CallDelete (rd_id d)]))), t @ [CallDelete (rd_id d)])"
  by (auto simp: delete_step_def Delete_eq failed_with_def suppressErrorOn404_def responseErr_def)

lemma deactivate_tolerated:
  "tolerated (m (t @ [CallDeactivate (rd_id d)])) \<Longrightarrow>
   resourceDeleteAnyIdp d m True t = delete_step d m (t @ [CallDeactivate (rd_id d)])"
  by (auto simp: resourceDeleteAnyIdp_def Deactivate_eq tolerated_def failed_with_def)

lemma deactivate_failed:
  "failed_with (m (t @ [CallDeactivate (rd_id d)])) code \<Longrightarrow> code \<noteq> 404 \<Longrightarrow>
   resourceDeleteAnyIdp d m True t =
     (Return (reply_err (m (t @ [CallDeactivate (rd_id d)]))), t @ [CallDeactivate (rd_id d)])"
  by (auto simp: resourceDeleteAnyIdp_def Deactivate_eq failed_with_def)

lemma rd_id_example: "rd_id social_example = ''0oa1example''"
  by (simp add: social_example_def)

subsection \<open>The read handler on the examples\<close>

lemma resourceSocialIdpRead_trace:
  "snd (resourceSocialIdpRead h d m t) = t @ [CallGet (rd_id d) zero_OIDCIdentityProvider]"
  by (simp add: resourceSocialIdpRead_def fetchIdp_eq split: outcome.splits option.splits)

lemma obind_PanicI: "(\<And>v. x = Return v \<Longrightarrow> f v = Panic) \<Longrightarrow> obind x f = Panic"
  by (cases x) auto

lemma host_Set_social:
  "host_Set (buildIdpSchema socialIdpSchema) ''name'' v d = Return (Set_field ''name'' v d)"
  "host_Set (buildIdpSchema socialIdpSchema) ''max_clock_skew'' v d =
     Return (Set_field ''max_clock_skew'' v d)"
  "host_Set (buildIdpSchema socialIdpSchema) ''provisioning_action'' v d =
     Return (Set_field ''provisioning_action'' v d)"
  "host_Set (buildIdpSchema socialIdpSchema) ''deprovisioned_action'' v d =
     Return (Set_field ''deprovisioned_action'' v d)"
  "host_Set (buildIdpSchema socialIdpSchema) ''suspended_action'' v d =
     Return (Set_field ''suspended_action'' v d)"
  "host_Set (buildIdpSchema socialIdpSchema) ''profile_master'' v d =
     Return (Set_field ''profile_master'' v d)"
  "host_Set (buildIdpSchema socialIdpSchema) ''groups_action'' v d =
     Return (Set_field ''groups_action'' v d)"
  "host_Set (buildIdpSchema socialIdpSchema) ''subject_match_type'' v d =
     Return (Set_field ''subject_match_type'' v d)"
  "host_Set (buildIdpSchema socialIdpSchema) ''username_template'' v d =
     Return (Set_field ''username_template'' v d)"
  "host_Set (buildIdpSchema socialIdpSchema) ''client_id'' v d =
     Return (Set_field ''client_id'' v d)"
  "host_Set (buildIdpSchema socialIdpSchema) ''client_secret'' v d =
     Return (Set_field ''client_secret'' v d)"
  "host_Set (buildIdpSchema socialIdpSchema) ''issuer_mode'' v d =
     Return (Set_field ''issuer_mode'' v d)"
  "host_Set (buildIdpSchema socialIdpSchema) ''account_link_action'' v d =
     Return (Set_field ''account_link_action'' v d)"
  by (simp_all add: host_Set_def buildIdpSchema_def baseIdpSchema_def socialIdpSchema_def)

lemma host_Set_social_filter:
  "host_Set (buildIdpSchema socialIdpSchema) ''account_link_group_include'' (VFilter f) d = Panic"
  by (simp add: host_Set_def buildIdpSchema_def baseIdpSchema_def socialIdpSchema_def)

text \<open>
  Whatever else the remote object holds, a read of an object that has an account link
  panics: at the latest when it hands \<open>idp.Policy.AccountLink.Filter\<close>, a \<open>*Filter\<close>
  and no set, to \<open>d.Set\<close> for the set-typed field \<open>account_link_group_include\<close>.
\<close>

lemma read_sets_account_link_panics:
  assumes "Policy idp = Some p" and "AccountLink p = Some link"
  shows "run_steps (read_sets idp) d = Panic"
  unfolding read_sets_def run_steps.simps
  by (intro obind_PanicI)
     (simp add: assms idp_Policy_def d_Set_def host_Set_social host_Set_social_filter)

lemma read_sets_remote:
  "run_steps (read_sets social_remote) d =
     Return (d\<lparr>rd_writes := rd_writes d @ butlast social_writes\<rparr>)"
  by (simp add: read_sets_def social_remote_def d_Set_def omap_def host_Set_social
      idp_Policy_def idp_Policy_Provisioning_def idp_Policy_Provisioning_Conditions_def
      idp_Policy_Provisioning_Groups_def idp_Policy_Subject_def
      idp_Policy_Subject_UserNameTemplate_def idp_Protocol_def
      idp_Protocol_Credentials_Client_def Set_field_def social_writes_def)

lemma read_sets_zero: "run_steps (read_sets zero_OIDCIdentityProvider) d = Panic"
  by (simp add: read_sets_def d_Set_def omap_def idp_Policy_def zero_OIDCIdentityProvider_def
      host_Set_social)

lemma read_found:
  assumes "m (t @ [CallGet (rd_id d) zero_OIDCIdentityProvider]) = found_reply social_remote"
  shows "resourceSocialIdpRead example_helpers d m t =
     (Return (None, d\<lparr>rd_writes := rd_writes d @ social_writes\<rparr>),
      t @ [CallGet (rd_id d) zero_OIDCIdentityProvider])"
proof -
  have p: "idp_Protocol social_remote =
      Return \<lparr>Scopes = [''openid'', ''email''], Protocol_Type = ''OIDC'',
        Credentials = Some \<lparr>Client = Some \<lparr>ClientID = ''abc123'', ClientSecret = ''s3cret''\<rparr>\<rparr>\<rparr>"
    by (simp add: idp_Protocol_def social_remote_def)
  show ?thesis
    by (simp add: resourceSocialIdpRead_def fetchIdp_eq assms found_reply_def pointee_def
        read_sets_remote p example_helpers_def Set_field_def social_writes_def)
qed

lemma resourceSocialIdpRead_account_link_panics:
  assumes "Policy (pointee zero_OIDCIdentityProvider
             (m (t @ [CallGet (rd_id d) zero_OIDCIdentityProvider]))) = Some p"
    and "AccountLink p = Some link"
  shows "fst (resourceSocialIdpRead h d m t) \<noteq> Return (None, d')"
  by (simp add: resourceSocialIdpRead_def fetchIdp_eq read_sets_account_link_panics [OF assms]
      split: outcome.splits option.splits)

lemma status_planned: "Get social_planned ''status'' = Some (VString ''ACTIVE'')"
  by (simp add: Get_planned status_example)

lemma planned_fields:
  "rd_writes social_planned = []"
  "rd_id social_planned = []"
  by (simp_all add: social_planned_def social_example_def SetId_def)

subsection \<open>Nil responses and nil policies, for every client\<close>

lemma fetchIdp_no_response:
  "reply_response (m (t @ [CallGet ident idp])) = None \<Longrightarrow> fst (fetchIdp ident m idp t) = Panic"
  by (simp add: fetchIdp_eq)

lemma createIdp_no_response:
  "reply_response (m (t @ [CallCreate idp])) = None \<Longrightarrow> fst (createIdp m idp t) = Panic"
  by (simp add: createIdp_eq)

lemma updateIdp_no_response:
  "reply_response (m (t @ [CallUpdate ident idp])) = None \<Longrightarrow>
   fst (updateIdp ident m idp t) = Panic"
  by (simp add: updateIdp_eq)

lemma getIdentityProviderExists_no_response:
  "reply_response (m (t @ [CallGet (rd_id d) idp])) = None \<Longrightarrow>
   fst (getIdentityProviderExists idp d m t) = Panic"
  by (simp add: getIdentityProviderExists_def Get_eq)

lemma resourceDeleteAnyIdp_no_response:
  "reply_response (m (t @ [CallDeactivate (rd_id d)])) = None \<Longrightarrow>
   reply_err (m (t @ [CallDeactivate (rd_id d)])) \<noteq> None \<Longrightarrow>
   fst (resourceDeleteAnyIdp d m True t) = Panic"
  by (simp add: resourceDeleteAnyIdp_def Deactivate_eq)

lemma resourceSocialIdpRead_no_response:
  "reply_response (m (t @ [CallGet (rd_id d) zero_OIDCIdentityProvider])) = None \<Longrightarrow>
   fst (resourceSocialIdpRead h d m t) = Panic"
  by (simp add: resourceSocialIdpRead_def fetchIdp_eq)

lemma resourceSocialIdpRead_404_undecoded:
  "reply_response (m (t @ [CallGet (rd_id d) zero_OIDCIdentityProvider])) = Some resp \<Longrightarrow>
   StatusCode resp = 404 \<Longrightarrow>
   reply_decoded (m (t @ [CallGet (rd_id d) zero_OIDCIdentityProvider])) = None \<Longrightarrow>
   resourceSocialIdpRead h d m t = (Panic, t @ [CallGet (rd_id d) zero_OIDCIdentityProvider])"
  by (simp add: resourceSocialIdpRead_def fetchIdp_eq pointee_def read_sets_zero)

subsection \<open>Delete\<close>

text \<open>
  What the delete handler of an active resource does with replies that carry an HTTP
  response: a reply that is no error or a 404 failure is tolerated at both steps, and an
  error with a response of another status is returned, from the deactivate call at once
  and from the delete call when the deactivate reply was tolerated.
\<close>

lemma resourceDeleteAnyIdp_with_response:
  "(tolerated (m (t @ [CallDeactivate (rd_id d)])) \<and>
    tolerated (m (t @ [CallDeactivate (rd_id d), CallDelete (rd_id d)])) \<longrightarrow>
      resourceDeleteAnyIdp d m True t =
        (Return None, t @ [CallDeactivate (rd_id d), CallDelete (rd_id d)])) \<and>
   (failed_with (m (t @ [CallDeactivate (rd_id d)])) code \<and> code \<noteq> 404 \<longrightarrow>
      resourceDeleteAnyIdp d m True t =
        (Return (reply_err (m (t @ [CallDeactivate (rd_id d)]))), t @ [CallDeactivate (rd_id d)])) \<and>
   (tolerated (m (t @ [CallDeactivate (rd_id d)])) \<and>
    failed_with (m (t @ [CallDeactivate (rd_id d), CallDelete (rd_id d)])) code \<and> code \<noteq> 404 \<longrightarrow>
      resourceDeleteAnyIdp d m True t =
        (Return (reply_err (m (t @ [CallDeactivate (rd_id d), CallDelete (rd_id d)]))),
         t @ [CallDeactivate (rd_id d), CallDelete (rd_id d)]))"
  using delete_step_tolerated [of m "t @ [CallDeactivate (rd_id d)]" d]
    delete_step_failed [of m "t @ [CallDeactivate (rd_id d)]" d code]
  by (auto simp: deactivate_tolerated deactivate_failed)

lemma resourceDeleteAnyIdp_inactive:
  "resourceDeleteAnyIdp d m False t = delete_step d m t"
  by (simp add: resourceDeleteAnyIdp_def)

lemma resourceDeleteAnyIdp_gone:
  "resourceDeleteAnyIdp social_example (client_gone :: OIDCIdentityProvider client) True [] =
     (Return None, [CallDeactivate ''0oa1example'', CallDelete ''0oa1example''])"
  using resourceDeleteAnyIdp_with_response
      [of "client_gone :: OIDCIdentityProvider client" "[]" social_example 0]
  by (simp add: rd_id_example tolerated_def failed_with_def client_gone_def http_reply_def)

text \<open>
  Claim C1 does not hold of the code. The 404 responses of an already deleted object are
  tolerated at both steps (\<open>resourceDeleteAnyIdp_gone\<close>), and an error with a response
  of another status is returned. But an error of the deactivate call that is not a 404
  because it has no response at all is not returned: the handler selects
  \<open>resp.StatusCode\<close> on the nil response as soon as the error is not nil, and
  panics after the one call.
\<close>

theorem resourceDeleteAnyIdp_no_response_panics:
  "reply_response ((client_netfail :: OIDCIdentityProvider client)
     [CallDeactivate ''0oa1example'']) = None \<and>
   reply_err ((client_netfail :: OIDCIdentityProvider client)
     [CallDeactivate ''0oa1example'']) = Some ''dial tcp: i/o timeout'' \<and>
   resourceDeleteAnyIdp social_example (client_netfail :: OIDCIdentityProvider client) True [] =
     (Panic, [CallDeactivate ''0oa1example''])"
  by (simp add: resourceDeleteAnyIdp_def Deactivate_eq rd_id_example client_netfail_def)

subsection \<open>The status reconciler\<close>

text \<open>
  Claim C3, as amended. For every pair of current and desired status strings,
  \<open>setIdpStatus\<close> issues no call when the desired status equals the current one. When
  they differ it issues exactly one call, a deactivate call when the desired status is
  \<open>INACTIVE\<close> and an activate call when it is \<open>ACTIVE\<close>, and returns the error of that
  call; for any other desired status it issues no call and returns no error.
\<close>

theorem setIdpStatus_calls:
  "(status = desired \<longrightarrow> setIdpStatus ident status desired m t = (None, t)) \<and>
   (status \<noteq> desired \<and> desired = ''INACTIVE'' \<longrightarrow>
      setIdpStatus ident status desired m t =
        (reply_err (m (t @ [CallDeactivate ident])), t @ [CallDeactivate ident])) \<and>
   (status \<noteq> desired \<and> desired = ''ACTIVE'' \<longrightarrow>
      setIdpStatus ident status desired m t =
        (reply_err (m (t @ [CallActivate ident])), t @ [CallActivate ident])) \<and>
   (desired \<noteq> ''INACTIVE'' \<and> desired \<noteq> ''ACTIVE'' \<longrightarrow>
      setIdpStatus ident status desired m t = (None, t))"
  by (simp add: setIdpStatus_eq)

text \<open>The four cases on a service that accepts every call.\<close>

theorem setIdpStatus_calls_witness:
  "setIdpStatus ''0oa1example'' ''ACTIVE'' ''ACTIVE'' (client_ok :: OIDCIdentityProvider client) [] =
     (None, []) \<and>
   setIdpStatus ''0oa1example'' ''ACTIVE'' ''INACTIVE'' (client_ok :: OIDCIdentityProvider client) [] =
     (None, [CallDeactivate ''0oa1example'']) \<and>
   setIdpStatus ''0oa1example'' ''INACTIVE'' ''ACTIVE'' (client_ok :: OIDCIdentityProvider client) [] =
     (None, [CallActivate ''0oa1example'']) \<and>
   setIdpStatus ''0oa1example'' ''ACTIVE'' ''PENDING'' (client_ok :: OIDCIdentityProvider client) [] =
     (None, [])"
  using setIdpStatus_calls
      [of "''ACTIVE''" "''ACTIVE''" "''0oa1example''" "client_ok :: OIDCIdentityProvider client" "[]"]
    setIdpStatus_calls
      [of "''ACTIVE''" "''INACTIVE''" "''0oa1example''" "client_ok :: OIDCIdentityProvider client" "[]"]
    setIdpStatus_calls
      [of "''INACTIVE''" "''ACTIVE''" "''0oa1example''" "client_ok :: OIDCIdentityProvider client" "[]"]
    setIdpStatus_calls
      [of "''ACTIVE''" "''PENDING''" "''0oa1example''" "client_ok :: OIDCIdentityProvider client" "[]"]
  by (simp add: client_ok_def http_reply_def)

text \<open>
  Claim C3 as stated fails: the desired status \<open>PENDING\<close> differs from the current
  status \<open>ACTIVE\<close>, and the number of calls issued is not one.
\<close>

theorem setIdpStatus_unknown_status_counterexample:
  "''PENDING'' \<noteq> ''ACTIVE'' \<and>
   length (snd (setIdpStatus ''0oa1example'' ''ACTIVE'' ''PENDING''
     (client_ok :: OIDCIdentityProvider client) [])) \<noteq> 1"
  by (simp add: setIdpStatus_def)

subsection \<open>Exists\<close>

text \<open>
  Claim C6. For every resource id the exists function makes one call, the fetch of the
  remote object by that id, and returns true if and only if the service responded with
  HTTP status 200.
\<close>

theorem getIdentityProviderExists_iff_200:
  "snd (getIdentityProviderExists idp d m t) = t @ [CallGet (rd_id d) idp] \<and>
   ((\<exists>e. fst (getIdentityProviderExists idp d m t) = Return (True, e)) =
    (map_option StatusCode (reply_response (m (t @ [CallGet (rd_id d) idp]))) = Some 200))"
  by (cases "reply_response (m (t @ [CallGet (rd_id d) idp]))")
     (auto simp: getIdentityProviderExists_def Get_eq)

text \<open>True on the service that holds the object (200), false once it is gone (404).\<close>

theorem getIdentityProviderExists_iff_200_witness:
  "getIdentityProviderExists zero_OIDCIdentityProvider social_example client_created [] =
     (Return (True, None), [CallGet ''0oa1example'' zero_OIDCIdentityProvider]) \<and>
   getIdentityProviderExists zero_OIDCIdentityProvider social_example client_gone [] =
     (Return (False, Some ''404 Not Found''), [CallGet ''0oa1example'' zero_OIDCIdentityProvider])"
  using getIdentityProviderExists_iff_200
      [of zero_OIDCIdentityProvider social_example client_created "[]"]
    getIdentityProviderExists_iff_200
      [of zero_OIDCIdentityProvider social_example client_gone "[]"]
  by (simp add: getIdentityProviderExists_def Get_eq rd_id_example client_created_def
      client_gone_def found_reply_def http_reply_def)

subsection \<open>Which calls suppress a 404\<close>

text \<open>
  Claim C4, as amended. A 404 response is suppressed, no error being returned for it, by
  \<open>createIdp\<close> and \<open>updateIdp\<close> just as by the fetch of the read (\<open>fetchIdp\<close>):
  when the call comes back with an HTTP response, each of the three returns no error if
  the status is 404 and otherwise returns the SDK's error verbatim, so that for create
  and update every error response with a status other than 404 is propagated verbatim.
  The delete handler suppresses the 404 of its deactivate call and of its delete call,
  on an active and on an inactive resource. The status reconciler suppresses nothing: it
  returns the error of its deactivate or activate call whatever the status, a 404
  included.
\<close>

theorem createIdp_updateIdp_404:
  "(\<forall>resp. reply_response (m (t @ [CallCreate idp])) = Some resp \<longrightarrow>
      fst (createIdp m idp t) =
        (if StatusCode resp = 404 then Return None
         else Return (reply_err (m (t @ [CallCreate idp]))))) \<and>
   (\<forall>resp. reply_response (m (t @ [CallUpdate ident idp])) = Some resp \<longrightarrow>
      fst (updateIdp ident m idp t) =
        (if StatusCode resp = 404 then Return None
         else Return (reply_err (m (t @ [CallUpdate ident idp]))))) \<and>
   (\<forall>resp. reply_response (m (t @ [CallGet ident idp])) = Some resp \<longrightarrow>
      fst (fetchIdp ident m idp t) =
        (if StatusCode resp = 404 then Return None
         else Return (reply_err (m (t @ [CallGet ident idp]))))) \<and>
   (failed_with (m (t @ [CallDeactivate (rd_id d)])) 404 \<and>
    failed_with (m (t @ [CallDeactivate (rd_id d), CallDelete (rd_id d)])) 404 \<longrightarrow>
      resourceDeleteAnyIdp d m True t =
        (Return None, t @ [CallDeactivate (rd_id d), CallDelete (rd_id d)])) \<and>
   (failed_with (m (t @ [CallDelete (rd_id d)])) 404 \<longrightarrow>
      resourceDeleteAnyIdp d m False t = (Return None, t @ [CallDelete (rd_id d)])) \<and>
   (status \<noteq> desired \<and> desired = ''INACTIVE'' \<longrightarrow>
      fst (setIdpStatus ident status desired m t) = reply_err (m (t @ [CallDeactivate ident]))) \<and>
   (status \<noteq> desired \<and> desired = ''ACTIVE'' \<longrightarrow>
      fst (setIdpStatus ident status desired m t) = reply_err (m (t @ [CallActivate ident])))"
proof -
  have a: "failed_with (m (t @ [CallDeactivate (rd_id d)])) 404 \<and>
      failed_with (m (t @ [CallDeactivate (rd_id d), CallDelete (rd_id d)])) 404 \<longrightarrow>
      resourceDeleteAnyIdp d m True t =
        (Return None, t @ [CallDeactivate (rd_id d), CallDelete (rd_id d)])"
    using resourceDeleteAnyIdp_with_response [of m t d 0] by (simp add: tolerated_def)
  have b: "failed_with (m (t @ [CallDelete (rd_id d)])) 404 \<longrightarrow>
      resourceDeleteAnyIdp d m False t = (Return None, t @ [CallDelete (rd_id d)])"
    using delete_step_tolerated [of m t d]
    by (simp add: resourceDeleteAnyIdp_inactive tolerated_def)
  have c: "status \<noteq> desired \<and> desired = ''INACTIVE'' \<longrightarrow>
      fst (setIdpStatus ident status desired m t) = reply_err (m (t @ [CallDeactivate ident]))"
    by (auto simp: setIdpStatus_eq)
  have e: "status \<noteq> desired \<and> desired = ''ACTIVE'' \<longrightarrow>
      fst (setIdpStatus ident status desired m t) = reply_err (m (t @ [CallActivate ident]))"
    by (auto simp: setIdpStatus_eq)
  have f: "\<forall>resp. reply_response (m (t @ [CallCreate idp])) = Some resp \<longrightarrow>
      fst (createIdp m idp t) =
        (if StatusCode resp = 404 then Return None
         else Return (reply_err (m (t @ [CallCreate idp]))))"
    by (simp add: createIdp_eq)
  have g: "\<forall>resp. reply_response (m (t @ [CallUpdate ident idp])) = Some resp \<longrightarrow>
      fst (updateIdp ident m idp t) =
        (if StatusCode resp = 404 then Return None
         else Return (reply_err (m (t @ [CallUpdate ident idp]))))"
    by (simp add: updateIdp_eq)
  have h: "\<forall>resp. reply_response (m (t @ [CallGet ident idp])) = Some resp \<longrightarrow>
      fst (fetchIdp ident m idp t) =
        (if StatusCode resp = 404 then Return None
         else Return (reply_err (m (t @ [CallGet ident idp]))))"
    by (simp add: fetchIdp_eq)
  from f g h a b c e show ?thesis
    by (intro conjI)
qed

text \<open>
  On the service whose object is gone (every call answered 404) the 404 is suppressed by
  create, update, fetch and delete and returned by the reconciler; on the failing
  service the 500 is returned by create, update and fetch.
\<close>

theorem createIdp_updateIdp_404_witness:
  "fst (createIdp client_gone social_payload []) = Return None \<and>
   fst (updateIdp ''0oa1example'' client_gone social_payload []) = Return None \<and>
   fst (fetchIdp ''0oa1example'' client_gone social_payload []) = Return None \<and>
   fst (createIdp client_500 social_payload []) = Return (Some ''500 Internal Server Error'') \<and>
   fst (updateIdp ''0oa1example'' client_500 social_payload []) =
     Return (Some ''500 Internal Server Error'') \<and>
   fst (fetchIdp ''0oa1example'' client_500 social_payload []) =
     Return (Some ''500 Internal Server Error'') \<and>
   resourceDeleteAnyIdp social_example client_gone True [] =
     (Return None, [CallDeactivate ''0oa1example'',
        CallDelete ''0oa1example'' :: OIDCIdentityProvider api_call]) \<and>
   resourceDeleteAnyIdp social_example client_gone False [] =
     (Return None, [CallDelete ''0oa1example'' :: OIDCIdentityProvider api_call]) \<and>
   fst (setIdpStatus ''0oa1example'' ''ACTIVE'' ''INACTIVE''
     (client_gone :: OIDCIdentityProvider client) []) = Some ''404 Not Found'' \<and>
   fst (setIdpStatus ''0oa1example'' ''INACTIVE'' ''ACTIVE''
     (client_gone :: OIDCIdentityProvider client) []) = Some ''404 Not Found''"
  using createIdp_updateIdp_404
      [of client_gone "[]" social_payload "''0oa1example''" social_example
        "''ACTIVE''" "''INACTIVE''"]
    createIdp_updateIdp_404
      [of client_gone "[]" social_payload "''0oa1example''" social_example
        "''INACTIVE''" "''ACTIVE''"]
    createIdp_updateIdp_404
      [of client_500 "[]" social_payload "''0oa1example''" social_example
        "''ACTIVE''" "''INACTIVE''"]
  by (simp add: rd_id_example failed_with_def client_gone_def client_500_def http_reply_def)

text \<open>
  Claim C4 as stated fails: the create call and the update call come back with a 404
  response and an error, and \<open>createIdp\<close> and \<open>updateIdp\<close> return no error.
\<close>

theorem createIdp_404_counterexample:
  "reply_response (client_gone [CallCreate social_payload]) = Some \<lparr>StatusCode = 404\<rparr> \<and>
   reply_err (client_gone [CallCreate social_payload]) = Some ''404 Not Found'' \<and>
   fst (createIdp client_gone social_payload []) = Return None \<and>
   reply_response (client_gone [CallUpdate ''0oa1example'' social_payload]) =
     Some \<lparr>StatusCode = 404\<rparr> \<and>
   reply_err (client_gone [CallUpdate ''0oa1example'' social_payload]) = Some ''404 Not Found'' \<and>
   fst (updateIdp ''0oa1example'' client_gone social_payload []) = Return None"
  by (simp add: createIdp_def Create_eq updateIdp_def Update_eq client_gone_def http_reply_def)

subsection \<open>Create\<close>

text \<open>
  Claim C7, as amended. On every resource data that conforms to the schema the create
  handler builds the payload and calls the create endpoint with it. When that call comes
  back with an HTTP response: if it is an error with a status other than 404, the handler
  returns that error, leaves the resource data as it was and makes no further call;
  otherwise (no error, or a 404, which \<open>createIdp\<close> does not report) it stores the \<open>ID\<close>
  of the object the call left in the payload as the resource id and reconciles the
  status of that object against the configured status; if the reconciler returns an
  error the handler returns it and does not read; otherwise it reads back by the stored
  id, the call that ends the trace, and returns what the read returns.
\<close>

theorem resourceSocialIdpCreate_steps:
  assumes "conforms (buildIdpSchema socialIdpSchema) d"
  shows "\<exists>idp0 desired.
     buildSocialIdp d = Return idp0 \<and> Get d ''status'' = Some (VString desired) \<and>
     (\<forall>resp. reply_response (m (t @ [CallCreate idp0])) = Some resp \<longrightarrow>
        (let t1 = t @ [CallCreate idp0];
             idp = pointee idp0 (m t1);
             d1 = SetId (ID idp) d
         in (StatusCode resp \<noteq> 404 \<and> reply_err (m t1) \<noteq> None \<longrightarrow>
               resourceSocialIdpCreate h d m t = (Return (reply_err (m t1), d), t1)) \<and>
            (StatusCode resp = 404 \<or> reply_err (m t1) = None \<longrightarrow>
               (\<forall>e t2. setIdpStatus (ID idp) (Status idp) desired m t1 = (Some e, t2) \<longrightarrow>
                  resourceSocialIdpCreate h d m t = (Return (Some e, d1), t2)) \<and>
               (\<forall>t2. setIdpStatus (ID idp) (Status idp) desired m t1 = (None, t2) \<longrightarrow>
                  resourceSocialIdpCreate h d m t = resourceSocialIdpRead h d1 m t2 \<and>
                  snd (resourceSocialIdpCreate h d m t) =
                    t2 @ [CallGet (ID idp) zero_OIDCIdentityProvider]))))"
proof -
  obtain idp0 where b: "buildSocialIdp d = Return idp0"
    using buildSocialIdp_returns [OF assms] by blast
  obtain desired where s: "Get d ''status'' = Some (VString desired)"
    using conforms_status [OF assms] by blast
  have "\<forall>resp. reply_response (m (t @ [CallCreate idp0])) = Some resp \<longrightarrow>
        (let t1 = t @ [CallCreate idp0];
             idp = pointee idp0 (m t1);
             d1 = SetId (ID idp) d
         in (StatusCode resp \<noteq> 404 \<and> reply_err (m t1) \<noteq> None \<longrightarrow>
               resourceSocialIdpCreate h d m t = (Return (reply_err (m t1), d), t1)) \<and>
            (StatusCode resp = 404 \<or> reply_err (m t1) = None \<longrightarrow>
               (\<forall>e t2. setIdpStatus (ID idp) (Status idp) desired m t1 = (Some e, t2) \<longrightarrow>
                  resourceSocialIdpCreate h d m t = (Return (Some e, d1), t2)) \<and>
               (\<forall>t2. setIdpStatus (ID idp) (Status idp) desired m t1 = (None, t2) \<longrightarrow>
                  resourceSocialIdpCreate h d m t = resourceSocialIdpRead h d1 m t2 \<and>
                  snd (resourceSocialIdpCreate h d m t) =
                    t2 @ [CallGet (ID idp) zero_OIDCIdentityProvider])))"
    by (auto simp: resourceSocialIdpCreate_def b s createIdp_eq Let_def
        resourceSocialIdpRead_trace)
  with b s show ?thesis by blast
qed

text \<open>
  A successful create of the example, on a service that sends no account link back: the
  create call, no status call (the object comes back \<open>ACTIVE\<close>, as configured), the
  read by the assigned id, whose writes end up in the resource data. On a failing
  service the create error is returned after one call.
\<close>

theorem resourceSocialIdpCreate_steps_witness:
  "conforms (buildIdpSchema socialIdpSchema) social_planned \<and>
   buildSocialIdp social_planned = Return social_payload \<and>
   resourceSocialIdpCreate example_helpers social_planned client_created [] =
     (Return (None, social_planned\<lparr>rd_id := ''0oa1example'', rd_writes := social_writes\<rparr>),
      [CallCreate social_payload, CallGet ''0oa1example'' zero_OIDCIdentityProvider]) \<and>
   resourceSocialIdpCreate example_helpers social_planned client_500 [] =
     (Return (Some ''500 Internal Server Error'', social_planned), [CallCreate social_payload])"
proof -
  note c = conforms_planned and b = buildSocialIdp_planned
  have p: "pointee social_payload (client_created [CallCreate social_payload]) = social_created"
    by (simp add: pointee_def client_created_def found_reply_def)
  have i: "ID social_created = ''0oa1example''" "Status social_created = ''ACTIVE''"
    by (simp_all add: social_created_def)
  have r: "resourceSocialIdpRead example_helpers (SetId ''0oa1example'' social_planned)
             client_created [CallCreate social_payload] =
           (Return (None, social_planned\<lparr>rd_id := ''0oa1example'', rd_writes := social_writes\<rparr>),
            [CallCreate social_payload, CallGet ''0oa1example'' zero_OIDCIdentityProvider])"
    by (subst read_found) (simp_all add: client_created_def SetId_def planned_fields)
  have k: "reply_response (client_created [CallCreate social_payload]) = Some \<lparr>StatusCode = 200\<rparr>"
    "reply_err (client_created [CallCreate social_payload]) = None"
    "reply_response (client_500 [CallCreate social_payload]) = Some \<lparr>StatusCode = 500\<rparr>"
    "reply_err (client_500 [CallCreate social_payload]) = Some ''500 Internal Server Error''"
    by (simp_all add: client_created_def found_reply_def client_500_def http_reply_def)
  show ?thesis
    using resourceSocialIdpCreate_steps [OF c, of client_created "[]" example_helpers]
      resourceSocialIdpCreate_steps [OF c, of client_500 "[]" example_helpers]
    by (simp add: c b status_planned p i r k setIdpStatus_eq Let_def)
qed

text \<open>
  Claim C7 as stated fails: the create call fails with a 404, and the handler does not
  return its error; it goes on to the status call and the read, with the empty id of the
  payload, and reports success (the service sends no account link back, so the read
  returns).
\<close>

theorem resourceSocialIdpCreate_404_counterexample:
  "buildSocialIdp social_planned = Return social_payload \<and>
   reply_response (client_create_404 [CallCreate social_payload]) = Some \<lparr>StatusCode = 404\<rparr> \<and>
   reply_err (client_create_404 [CallCreate social_payload]) = Some ''404 Not Found'' \<and>
   resourceSocialIdpCreate example_helpers social_planned client_create_404 [] =
     (Return (None, social_planned\<lparr>rd_writes := social_writes\<rparr>),
      [CallCreate social_payload, CallActivate [],
       CallGet [] zero_OIDCIdentityProvider])"
proof -
  have p: "pointee social_payload (client_create_404 [CallCreate social_payload]) = social_payload"
    by (simp add: pointee_def client_create_404_def http_reply_def)
  have i: "ID social_payload = []" "Status social_payload = []"
    by (simp_all add: social_payload_def)
  have r: "resourceSocialIdpRead example_helpers (SetId [] social_planned)
             client_create_404 [CallCreate social_payload, CallActivate []] =
           (Return (None, social_planned\<lparr>rd_writes := social_writes\<rparr>),
            [CallCreate social_payload, CallActivate [], CallGet [] zero_OIDCIdentityProvider])"
    by (subst read_found) (simp_all add: client_create_404_def SetId_def planned_fields)
  have k: "reply_response (client_create_404 [CallCreate social_payload]) = Some \<lparr>StatusCode = 404\<rparr>"
    "reply_err (client_create_404 [CallCreate social_payload]) = Some ''404 Not Found''"
    "reply_err (client_create_404 [CallCreate social_payload, CallActivate []]) = None"
    by (simp_all add: client_create_404_def http_reply_def)
  show ?thesis
    by (simp add: resourceSocialIdpCreate_def buildSocialIdp_planned createIdp_eq k p i
        status_planned setIdpStatus_eq r)
qed

subsection \<open>Read of a removed object\<close>

text \<open>
  Claim C2 does not hold of the code. The object of the example has been removed: the
  fetch comes back with a 404 response and decodes nothing. \<open>fetchIdp\<close> returns no
  error and leaves the caller's object as it was, all zero; the read handler then
  selects \<open>idp.Policy.MaxClockSkew\<close> through the nil \<open>Policy\<close> and panics. It returns
  neither "no error" nor any sign of absence.
\<close>

theorem resourceSocialIdpRead_removed_panics:
  "reply_response (client_gone [CallGet ''0oa1example'' zero_OIDCIdentityProvider]) =
     Some \<lparr>StatusCode = 404\<rparr> \<and>
   fetchIdp ''0oa1example'' client_gone zero_OIDCIdentityProvider [] =
     (Return None, zero_OIDCIdentityProvider,
      [CallGet ''0oa1example'' zero_OIDCIdentityProvider]) \<and>
   resourceSocialIdpRead example_helpers social_example client_gone [] =
     (Panic, [CallGet ''0oa1example'' zero_OIDCIdentityProvider])"
proof -
  have k: "client_gone [CallGet ''0oa1example'' zero_OIDCIdentityProvider] =
      http_reply 404 (Some ''404 Not Found'')"
    by (simp add: client_gone_def)
  show ?thesis
    by (simp add: resourceSocialIdpRead_def fetchIdp_eq rd_id_example k http_reply_def
        pointee_def read_sets_zero)
qed

subsection \<open>Calls that get no response\<close>

text \<open>
  Claim C8 does not hold of the code. On a connection that yields an error and no
  response, \<open>fetchIdp\<close> selects \<open>response.StatusCode\<close> on the nil response before it
  looks at the error, and so do \<open>createIdp\<close>, \<open>updateIdp\<close> and the exists function;
  the delete handler of an active resource does it as soon as the error is not nil.
  The read, create, update, delete and exists handlers all panic instead of returning
  the error.
\<close>

theorem handlers_panic_without_response:
  "reply_response (client_netfail []) = (None :: Response option) \<and>
   fst (fetchIdp ''0oa1example'' client_netfail zero_OIDCIdentityProvider []) = Panic \<and>
   fst (resourceSocialIdpRead example_helpers social_example client_netfail []) = Panic \<and>
   fst (resourceSocialIdpCreate example_helpers social_planned client_netfail []) = Panic \<and>
   fst (resourceSocialIdpUpdate example_helpers social_example client_netfail []) = Panic \<and>
   fst (resourceIdpDelete social_example (client_netfail :: OIDCIdentityProvider client) []) = Panic \<and>
   fst (getIdentityProviderExists zero_OIDCIdentityProvider social_example client_netfail []) = Panic"
proof -
  have n: "reply_response (client_netfail t) = None"
    "reply_err (client_netfail t) = Some ''dial tcp: i/o timeout''" for t :: "'i trace"
    by (simp_all add: client_netfail_def)
  show ?thesis
    by (simp add: n fetchIdp_eq createIdp_eq updateIdp_eq resourceSocialIdpRead_def
        resourceSocialIdpCreate_def resourceSocialIdpUpdate_def resourceIdpDelete_def
        resourceDeleteAnyIdp_def getIdentityProviderExists_def Get_eq Deactivate_eq
        buildSocialIdp_planned buildSocialIdp_example status_example rd_id_example
        Partial_def Let_def)
qed


end
